theory Spec2Isabelle
  imports Main "HOL-Library.Word" "HOL-Library.AList"
begin

section \<open>JavaScript values\<close>

text \<open>
  Wire records, observer arguments and stored logs are JSON-like JavaScript values.
  Numbers are restricted to integers (timestamps are integer epoch milliseconds).
  Strings are lists of 8-bit characters.
\<close>

datatype js =
    JUndefined
  | JNull
  | JBool bool
  | JNum int
  | JStr string
  | JArr "js list"
  | JObj "(string \<times> js) list"

text \<open>Truthiness, as tested by \<^verbatim>\<open>if (v)\<close>, \<^verbatim>\<open>!v\<close> and \<^verbatim>\<open>a || b\<close>.\<close>

fun truthy :: "js \<Rightarrow> bool" where
  "truthy JUndefined = False"
| "truthy JNull = False"
| "truthy (JBool b) = b"
| "truthy (JNum n) = (n \<noteq> 0)"
| "truthy (JStr s) = (s \<noteq> [])"
| "truthy (JArr xs) = True"
| "truthy (JObj kvs) = True"

text \<open>
  Property access \<^verbatim>\<open>v.k\<close> for the property names the program reads (none of them is a
  built-in property of a primitive or of an array): \<open>None\<close> stands for the TypeError
  raised on \<^verbatim>\<open>null\<close> and \<^verbatim>\<open>undefined\<close>, a missing property reads as \<^verbatim>\<open>undefined\<close>.
\<close>

fun get_prop :: "js \<Rightarrow> string \<Rightarrow> js option" where
  "get_prop JUndefined k = None"
| "get_prop JNull k = None"
| "get_prop (JObj kvs) k = (case map_of kvs k of None \<Rightarrow> Some JUndefined | Some v \<Rightarrow> Some v)"
| "get_prop v k = Some JUndefined"

text \<open>\<^verbatim>\<open>typeof raw === 'object' && raw !== null\<close>\<close>

fun is_object :: "js \<Rightarrow> bool" where
  "is_object (JArr xs) = True"
| "is_object (JObj kvs) = True"
| "is_object v = False"

text \<open>\<^verbatim>\<open>a || b\<close>\<close>

definition js_or :: "js \<Rightarrow> js \<Rightarrow> js" where
  "js_or a b = (if truthy a then a else b)"

section \<open>The platform\<close>

type_synonym bytes = "8 word list"

text \<open>
  A CryptoKey is opaque to the program; the model names a key by its key material.
  The flag of an AES key is its \<^verbatim>\<open>extractable\<close> attribute.
\<close>

datatype pubkey = PublicKey bytes
datatype privkey = PrivateKey bytes
datatype aeskey = AesKey bytes bool

text \<open>
  The built-ins of the browser that the program calls are parameters of the model:
  nothing is assumed about them beyond their types. A result \<open>None\<close> means that the
  built-in throws (or that the promise it returns is rejected). The random sources are
  indexed by the number of draws made so far, the clock by the number of readings.
\<close>

record platform =
  JSON_parse :: "js \<Rightarrow> js option"
  JSON_stringify :: "js \<Rightarrow> string"
  btoa :: "string \<Rightarrow> string"
  atob :: "js \<Rightarrow> string option"
  TextEncoder_encode :: "string \<Rightarrow> bytes"
  TextDecoder_decode :: "bytes \<Rightarrow> string"
  getRandomValues :: "nat \<Rightarrow> nat \<Rightarrow> bytes"
  Math_random_base36 :: "nat \<Rightarrow> string"
  Date_now :: "nat \<Rightarrow> int"
  generateKey_ECDH :: "nat \<Rightarrow> privkey \<times> pubkey"
  generateKey_AES :: "nat \<Rightarrow> aeskey"
  exportKey_ECDH :: "pubkey \<Rightarrow> bytes"
  exportKey_AES :: "aeskey \<Rightarrow> bytes option"
  importKey_ECDH :: "bytes \<Rightarrow> pubkey option"
  importKey_AES :: "bytes \<Rightarrow> bool \<Rightarrow> aeskey option"
  deriveBits :: "privkey \<Rightarrow> pubkey \<Rightarrow> bytes"
  AES_GCM_encrypt :: "aeskey \<Rightarrow> bytes \<Rightarrow> bytes \<Rightarrow> bytes"
  AES_GCM_decrypt :: "aeskey \<Rightarrow> bytes \<Rightarrow> bytes \<Rightarrow> bytes option"

datatype error =
    PeerNotInitialized  \<comment> \<open>\<^verbatim>\<open>new Error('Peer not initialized')\<close>\<close>
  | NoRoomKey           \<comment> \<open>\<^verbatim>\<open>new Error('No roomKey available')\<close>\<close>
  | DecryptionFailed    \<comment> \<open>\<^verbatim>\<open>new Error('Unable to decrypt local chat ...')\<close>\<close>
  | TypeError           \<comment> \<open>property access on null or undefined, a value that is not iterable, a key that is not a CryptoKey\<close>
  | BuiltinError        \<comment> \<open>an exception raised inside a built-in\<close>

section \<open>util.js\<close>

definition randSuffix :: "platform \<Rightarrow> nat \<Rightarrow> string" where
  "randSuffix P n = take 7 (drop 2 (Math_random_base36 P n))"

definition ab2b64 :: "platform \<Rightarrow> bytes \<Rightarrow> string" where
  "ab2b64 P ab = btoa P (map (\<lambda>b. char_of (unat b)) ab)"

definition b642ab :: "platform \<Rightarrow> js \<Rightarrow> bytes option" where
  "b642ab P b64 = (case atob P b64 of None \<Rightarrow> None | Some s \<Rightarrow> Some (map of_char s))"

section \<open>crypto.js\<close>

definition generateECDHKeyPair :: "platform \<Rightarrow> nat \<Rightarrow> privkey \<times> pubkey" where
  "generateECDHKeyPair P n = generateKey_ECDH P n"

definition exportPublicKeyToBase64 :: "platform \<Rightarrow> pubkey \<Rightarrow> string" where
  "exportPublicKeyToBase64 P pubKey = ab2b64 P (exportKey_ECDH P pubKey)"

definition importPublicKeyFromBase64 :: "platform \<Rightarrow> js \<Rightarrow> error + pubkey" where
  "importPublicKeyFromBase64 P b64 =
     (case b642ab P b64 of
        None \<Rightarrow> Inl BuiltinError
      | Some raw \<Rightarrow>
          (case importKey_ECDH P raw of None \<Rightarrow> Inl BuiltinError | Some k \<Rightarrow> Inr k))"

text \<open>
  The remote key may be \<^verbatim>\<open>undefined\<close> (a connection whose \<^verbatim>\<open>_theirPub\<close> was never set):
  \<^verbatim>\<open>deriveBits\<close> then rejects with a TypeError.
\<close>

definition deriveSharedAESKey :: "platform \<Rightarrow> privkey \<Rightarrow> pubkey option \<Rightarrow> error + aeskey" where
  "deriveSharedAESKey P privateKey remotePublicKey =
     (case remotePublicKey of
        None \<Rightarrow> Inl TypeError
      | Some pk \<Rightarrow>
          (case importKey_AES P (deriveBits P privateKey pk) False of
             None \<Rightarrow> Inl BuiltinError
           | Some k \<Rightarrow> Inr k))"

definition generateAESKey :: "platform \<Rightarrow> nat \<Rightarrow> aeskey" where
  "generateAESKey P n = generateKey_AES P n"

text \<open>The key may be \<^verbatim>\<open>null\<close> (no room key yet): \<^verbatim>\<open>exportKey\<close> then rejects.\<close>

definition exportAESKeyToBase64 :: "platform \<Rightarrow> aeskey option \<Rightarrow> error + string" where
  "exportAESKeyToBase64 P key =
     (case key of
        None \<Rightarrow> Inl TypeError
      | Some k \<Rightarrow>
          (case exportKey_AES P k of None \<Rightarrow> Inl BuiltinError | Some raw \<Rightarrow> Inr (ab2b64 P raw)))"

definition importAESKeyFromBase64 :: "platform \<Rightarrow> js \<Rightarrow> error + aeskey" where
  "importAESKeyFromBase64 P b64 =
     (case b642ab P b64 of
        None \<Rightarrow> Inl BuiltinError
      | Some raw \<Rightarrow>
          (case importKey_AES P raw False of None \<Rightarrow> Inl BuiltinError | Some k \<Rightarrow> Inr k))"

text \<open>
  \<open>n\<close> is the index of the draw that yields the 12-byte nonce; every caller advances
  its draw counter past \<open>n\<close>.
\<close>

definition encryptAESGCM :: "platform \<Rightarrow> nat \<Rightarrow> aeskey \<Rightarrow> string \<Rightarrow> js" where
  "encryptAESGCM P n key plaintext =
     (let iv = getRandomValues P n 12;
          ct = AES_GCM_encrypt P key iv (TextEncoder_encode P plaintext)
      in JObj [(''iv'', JStr (ab2b64 P iv)), (''ciphertext'', JStr (ab2b64 P ct))])"

definition decryptAESGCM :: "platform \<Rightarrow> aeskey \<Rightarrow> js \<Rightarrow> js \<Rightarrow> error + string" where
  "decryptAESGCM P key iv_b64 ct_b64 =
     (case b642ab P iv_b64 of
        None \<Rightarrow> Inl BuiltinError
      | Some iv \<Rightarrow>
          (case b642ab P ct_b64 of
             None \<Rightarrow> Inl BuiltinError
           | Some ct \<Rightarrow>
               (case AES_GCM_decrypt P key iv ct of
                  None \<Rightarrow> Inl BuiltinError
                | Some pt \<Rightarrow> Inr (TextDecoder_decode P pt))))"

section \<open>peer.js: the state of the module\<close>

text \<open>
  The closures registered with \<^verbatim>\<open>conn.on('open', ...)\<close>, named by the place that
  registers them: \<open>OutgoingOpen\<close> in \<^verbatim>\<open>connectToPeer\<close>, \<open>IncomingOpen\<close> in
  \<^verbatim>\<open>handleConnection\<close>, \<open>DeliverRoomKey enc\<close> in the \<^verbatim>\<open>announce\<close> case (it closes over
  the encrypted room key) and \<open>AnnounceOnOpen\<close> in \<^verbatim>\<open>announceToCreator\<close>.
\<close>

datatype open_handler = OutgoingOpen | IncomingOpen | DeliverRoomKey js | AnnounceOnOpen

text \<open>
  A DataConnection object of the transport library: its \<^verbatim>\<open>peer\<close> and \<^verbatim>\<open>open\<close> fields, the
  two fields the program adds, the handlers the program has registered (each connection
  gets at most one \<^verbatim>\<open>data\<close> and one \<^verbatim>\<open>close\<close> handler, always the same ones) and the data
  handed to \<^verbatim>\<open>send\<close> while the connection was open. \<open>opened\<close> tells whether the library
  has emitted the \<^verbatim>\<open>open\<close> event of the connection: it emits this event once.
\<close>

record conn =
  conn_peer :: js
  conn_open :: bool
  opened :: bool
  theirPub :: "pubkey option"
  theirName :: js
  on_open :: "open_handler list"
  on_data :: bool
  on_close :: bool
  sent :: "string list"

text \<open>The calls of \<^verbatim>\<open>console.warn\<close> and \<^verbatim>\<open>console.error\<close> (\<^verbatim>\<open>console.log\<close> is not recorded).\<close>

datatype diagnostic =
    ParseSafeFailed
  | FailedRoomKeyHandling
  | NoRoomKeyYet
  | DecryptMessageFailed

text \<open>
  The module-level variables, followed by the environment they act on: the connection
  objects (a store from references to objects, \<open>next_conn\<close> being the next fresh
  reference), the counters of the random source and of the clock, the console, the
  arguments the two observers were called with, and the rejections of promises that
  nobody awaits. \<open>peer\<close> tells whether the variable \<^verbatim>\<open>peer\<close> is set; \<open>onMessageCallback\<close>
  and \<open>onParticipantChange\<close> tell whether the observer is set.
\<close>

record state =
  peer :: bool
  connMap :: "(js \<times> nat) list"
  my_peerId :: js
  my_ecdhPair :: "(privkey \<times> pubkey) option"
  my_pubB64 :: js
  my_username :: js
  roomId :: js
  isCreator :: bool
  roomKey :: "aeskey option"
  onMessageCallback :: bool
  onParticipantChange :: bool
  conns :: "nat \<Rightarrow> conn"
  next_conn :: nat
  draws :: nat
  ticks :: nat
  console :: "diagnostic list"
  ui_messages :: "js list"
  ui_participants :: "js list"
  unhandled :: "error list"

definition new_conn :: "js \<Rightarrow> conn" where
  "new_conn remote =
     \<lparr>conn_peer = remote, conn_open = False, opened = False, theirPub = None,
      theirName = JUndefined,
      on_open = [], on_data = False, on_close = False, sent = []\<rparr>"

definition module_state :: state where
  "module_state =
     \<lparr>peer = False, connMap = [], my_peerId = JNull, my_ecdhPair = None, my_pubB64 = JNull,
      my_username = JNull, roomId = JNull, isCreator = False, roomKey = None,
      onMessageCallback = False, onParticipantChange = False,
      conns = (\<lambda>c. new_conn JUndefined), next_conn = 0, draws = 0, ticks = 0,
      console = [], ui_messages = [], ui_participants = [], unhandled = []\<rparr>"

datatype outcome = Resolved | Rejected error

section \<open>The transport library\<close>

definition upd_conn :: "state \<Rightarrow> nat \<Rightarrow> (conn \<Rightarrow> conn) \<Rightarrow> state" where
  "upd_conn st c f = st\<lparr>conns := (conns st)(c := f (conns st c))\<rparr>"

text \<open>
  \<^verbatim>\<open>conn.send(data)\<close>: the data goes out when the connection is open; on a connection
  that is not open the library reports an error event, which nobody listens to.
\<close>

definition conn_send :: "state \<Rightarrow> nat \<Rightarrow> string \<Rightarrow> state" where
  "conn_send st c data =
     (if conn_open (conns st c) then upd_conn st c (\<lambda>k. k\<lparr>sent := sent k @ [data]\<rparr>) else st)"

text \<open>\<^verbatim>\<open>peer.connect(theirId, ...)\<close> returns a new connection object, not yet open.\<close>

definition peer_connect :: "state \<Rightarrow> js \<Rightarrow> nat \<times> state" where
  "peer_connect st theirId =
     (next_conn st,
      st\<lparr>conns := (conns st)(next_conn st := new_conn theirId), next_conn := Suc (next_conn st)\<rparr>)"

section \<open>peer.js: the functions\<close>

definition notifyParticipants :: "state \<Rightarrow> state" where
  "notifyParticipants st =
     (if onParticipantChange st
      then st\<lparr>ui_participants := ui_participants st @ [JArr (map fst (connMap st) @ [my_peerId st])]\<rparr>
      else st)"

definition publicKey_record :: "state \<Rightarrow> js" where
  "publicKey_record st =
     JObj [(''type'', JStr ''publicKey''), (''from'', my_peerId st),
           (''payload'', my_pubB64 st), (''username'', my_username st)]"

definition announce_record :: "state \<Rightarrow> js" where
  "announce_record st =
     JObj [(''type'', JStr ''announce''), (''from'', my_peerId st),
           (''payload'', JObj [(''pubKey'', my_pubB64 st)])]"

definition roomKey_record :: "state \<Rightarrow> js \<Rightarrow> js" where
  "roomKey_record st enc =
     JObj [(''type'', JStr ''roomKey''), (''from'', my_peerId st), (''payload'', enc)]"

definition peerList_record :: "state \<Rightarrow> js" where
  "peerList_record st =
     JObj [(''type'', JStr ''peerList''), (''from'', my_peerId st),
           (''payload'', JArr (map fst (connMap st) @ [my_peerId st]))]"

definition newPeer_record :: "state \<Rightarrow> js \<Rightarrow> js" where
  "newPeer_record st theirId =
     JObj [(''type'', JStr ''newPeer''), (''from'', my_peerId st),
           (''payload'', JObj [(''peerId'', theirId)])]"

text \<open>
  \<^verbatim>\<open>connectToPeer(theirId)\<close> returns the connection, or throws when \<^verbatim>\<open>peer\<close> is not set.
  The registry is a JavaScript Map: an association list in insertion order, \<^verbatim>\<open>set\<close>
  replacing the value of a key in place or appending a new entry. Keys are compared as
  values, which is how a Map and \<^verbatim>\<open>===\<close> compare strings and the other primitives (peer
  identities are strings); JavaScript compares arrays and objects by reference, which the
  model does not distinguish. \<^verbatim>\<open>peer.connect\<close> is taken to return a connection always.
\<close>

definition connectToPeer :: "state \<Rightarrow> js \<Rightarrow> error + (nat \<times> state)" where
  "connectToPeer st theirId =
     (if \<not> peer st then Inl PeerNotInitialized
      else case map_of (connMap st) theirId of
        Some c \<Rightarrow> Inr (c, st)
      | None \<Rightarrow>
          (let (c, st1) = peer_connect st theirId;
               st2 = upd_conn st1 c
                       (\<lambda>k. k\<lparr>on_open := on_open k @ [OutgoingOpen], on_data := True, on_close := True\<rparr>);
               st3 = st2\<lparr>connMap := AList.update theirId c (connMap st2)\<rparr>
           in Inr (c, notifyParticipants st3)))"

definition handleConnection :: "state \<Rightarrow> nat \<Rightarrow> state" where
  "handleConnection st c =
     upd_conn st c
       (\<lambda>k. k\<lparr>on_open := on_open k @ [IncomingOpen], on_data := True, on_close := True\<rparr>)"

text \<open>\<^verbatim>\<open>parseSafe(raw)\<close>, with the diagnostics it prints.\<close>

definition parseSafe :: "platform \<Rightarrow> js \<Rightarrow> js \<times> diagnostic list" where
  "parseSafe P raw =
     (if is_object raw then (raw, [])
      else case JSON_parse P raw of
        Some v \<Rightarrow> (v, [])
      | None \<Rightarrow> (JNull, [ParseSafeFailed]))"

text \<open>
  A property of a value that is known not to be \<^verbatim>\<open>null\<close> or \<^verbatim>\<open>undefined\<close>; it is used on
  the message only, after \<^verbatim>\<open>msg.type\<close> has been read.
\<close>

definition field :: "js \<Rightarrow> string \<Rightarrow> js" where
  "field v k = (case get_prop v k of None \<Rightarrow> JUndefined | Some x \<Rightarrow> x)"

text \<open>The values a \<^verbatim>\<open>for ... of\<close> loop runs over; \<open>None\<close> when the value is not iterable.\<close>

fun iterate :: "js \<Rightarrow> js list option" where
  "iterate (JArr xs) = Some xs"
| "iterate (JStr s) = Some (map (\<lambda>c. JStr [c]) s)"
| "iterate v = None"

subsection \<open>handleProtocolMessage\<close>

text \<open>
  Every handler runs to completion before the next event is taken: the points where
  the source awaits a promise of the crypto library are not interleaving points of the
  model. A handler returns the outcome of its promise and the state it leaves behind.
\<close>

definition case_publicKey :: "platform \<Rightarrow> state \<Rightarrow> nat \<Rightarrow> js \<Rightarrow> outcome \<times> state" where
  "case_publicKey P st c msg =
     (case importPublicKeyFromBase64 P (field msg ''payload'') of
        Inl e \<Rightarrow> (Rejected e, st)
      | Inr k \<Rightarrow>
          (Resolved,
           upd_conn st c
             (\<lambda>x. x\<lparr>theirPub := Some k,
                    theirName := js_or (field msg ''username'') (field msg ''from'')\<rparr>)))"

text \<open>The loop of the \<^verbatim>\<open>announce\<close> case over the entries of the registry.\<close>

definition inform_existing :: "platform \<Rightarrow> js \<Rightarrow> state \<Rightarrow> state" where
  "inform_existing P theirId st =
     fold (\<lambda>(pid, c) s.
             if pid = theirId then s
             else if conn_open (conns s c)
                  then conn_send s c (JSON_stringify P (newPeer_record s theirId))
                  else s)
          (connMap st) st"

definition case_announce :: "platform \<Rightarrow> state \<Rightarrow> nat \<Rightarrow> js \<Rightarrow> outcome \<times> state" where
  "case_announce P st c msg =
     (if \<not> isCreator st then (Resolved, st)
      else
        let theirId = field msg ''from'' in
        case get_prop (field msg ''payload'') ''pubKey'' of
          None \<Rightarrow> (Rejected TypeError, st)
        | Some theirPubB64 \<Rightarrow>
        (case importPublicKeyFromBase64 P theirPubB64 of
          Inl e \<Rightarrow> (Rejected e, st)
        | Inr theirPub' \<Rightarrow>
        (case (case map_of (connMap st) theirId of
                 Some connToNew \<Rightarrow> Inr (connToNew, st)
               | None \<Rightarrow>
                   (case connectToPeer st theirId of
                      Inl e \<Rightarrow> Inl e
                    | Inr (connToNew, st1) \<Rightarrow>
                        Inr (connToNew, upd_conn st1 connToNew (\<lambda>x. x\<lparr>theirPub := Some theirPub'\<rparr>)))) of
          Inl e \<Rightarrow> (Rejected e, st)
        | Inr (connToNew, st1) \<Rightarrow>
        (case my_ecdhPair st1 of
          None \<Rightarrow> (Rejected TypeError, st1)
        | Some (privateKey, publicKey) \<Rightarrow>
        (case deriveSharedAESKey P privateKey (Some theirPub') of
          Inl e \<Rightarrow> (Rejected e, st1)
        | Inr derived \<Rightarrow>
        (case exportAESKeyToBase64 P (roomKey st1) of
          Inl e \<Rightarrow> (Rejected e, st1)
        | Inr roomRaw \<Rightarrow>
            (let enc = encryptAESGCM P (draws st1) derived roomRaw;
                 st2 = st1\<lparr>draws := Suc (draws st1)\<rparr>;
                 st3 = upd_conn st2 connToNew (\<lambda>x. x\<lparr>on_open := on_open x @ [DeliverRoomKey enc]\<rparr>)
             in (Resolved, inform_existing P theirId st3))))))))"

text \<open>The body of the \<^verbatim>\<open>try\<close> block of the \<^verbatim>\<open>roomKey\<close> case: the key, or what was thrown.\<close>

definition roomKey_try :: "platform \<Rightarrow> state \<Rightarrow> nat \<Rightarrow> js \<Rightarrow> error + aeskey" where
  "roomKey_try P st c msg =
     (case my_ecdhPair st of
        None \<Rightarrow> Inl TypeError
      | Some (privateKey, publicKey) \<Rightarrow>
      (case deriveSharedAESKey P privateKey (theirPub (conns st c)) of
        Inl e \<Rightarrow> Inl e
      | Inr shared \<Rightarrow>
      (case get_prop (field msg ''payload'') ''iv'' of
        None \<Rightarrow> Inl TypeError
      | Some iv \<Rightarrow>
      (case get_prop (field msg ''payload'') ''ciphertext'' of
        None \<Rightarrow> Inl TypeError
      | Some ciphertext \<Rightarrow>
      (case decryptAESGCM P shared iv ciphertext of
        Inl e \<Rightarrow> Inl e
      | Inr roomRawB64 \<Rightarrow> importAESKeyFromBase64 P (JStr roomRawB64))))))"

definition case_roomKey :: "platform \<Rightarrow> state \<Rightarrow> nat \<Rightarrow> js \<Rightarrow> outcome \<times> state" where
  "case_roomKey P st c msg =
     (case roomKey_try P st c msg of
        Inr k \<Rightarrow> (Resolved, st\<lparr>roomKey := Some k\<rparr>)
      | Inl err \<Rightarrow> (Resolved, st\<lparr>console := console st @ [FailedRoomKeyHandling]\<rparr>))"

fun peerList_loop :: "state \<Rightarrow> js list \<Rightarrow> outcome \<times> state" where
  "peerList_loop st [] = (Resolved, st)"
| "peerList_loop st (pid # rest) =
     (if pid = my_peerId st \<or> map_of (connMap st) pid \<noteq> None then peerList_loop st rest
      else case connectToPeer st pid of
        Inl e \<Rightarrow> (Rejected e, st)
      | Inr (c, st1) \<Rightarrow> peerList_loop st1 rest)"

definition case_peerList :: "platform \<Rightarrow> state \<Rightarrow> nat \<Rightarrow> js \<Rightarrow> outcome \<times> state" where
  "case_peerList P st c msg =
     (case iterate (js_or (field msg ''payload'') (JArr [])) of
        None \<Rightarrow> (Rejected TypeError, st)
      | Some list \<Rightarrow> peerList_loop st list)"

definition case_newPeer :: "platform \<Rightarrow> state \<Rightarrow> nat \<Rightarrow> js \<Rightarrow> outcome \<times> state" where
  "case_newPeer P st c msg =
     (case get_prop (field msg ''payload'') ''peerId'' of
        None \<Rightarrow> (Rejected TypeError, st)
      | Some newPid \<Rightarrow>
          (if map_of (connMap st) newPid = None \<and> newPid \<noteq> my_peerId st
           then (case connectToPeer st newPid of
                   Inl e \<Rightarrow> (Rejected e, st)
                 | Inr (c', st1) \<Rightarrow> (Resolved, st1))
           else (Resolved, st)))"

definition case_announceRequest :: "platform \<Rightarrow> state \<Rightarrow> nat \<Rightarrow> js \<Rightarrow> outcome \<times> state" where
  "case_announceRequest P st c msg =
     (if \<not> isCreator st
      then (Resolved, conn_send st c (JSON_stringify P (announce_record st)))
      else (Resolved, st))"

text \<open>
  The body of the \<^verbatim>\<open>try\<close> block of the \<^verbatim>\<open>msg\<close> case, given the room key: the state after
  the observer (if any) was called, or what was thrown.
\<close>

definition msg_try :: "platform \<Rightarrow> state \<Rightarrow> aeskey \<Rightarrow> js \<Rightarrow> error + state" where
  "msg_try P st key msg =
     (case get_prop (field msg ''payload'') ''iv'' of
        None \<Rightarrow> Inl TypeError
      | Some iv \<Rightarrow>
      (case get_prop (field msg ''payload'') ''ciphertext'' of
        None \<Rightarrow> Inl TypeError
      | Some ciphertext \<Rightarrow>
      (case decryptAESGCM P key iv ciphertext of
        Inl e \<Rightarrow> Inl e
      | Inr plaintext \<Rightarrow>
      (case JSON_parse P (JStr plaintext) of
        None \<Rightarrow> Inl BuiltinError
      | Some obj \<Rightarrow>
          (if onMessageCallback st
           then (if truthy (field msg ''ts'')
                 then Inr (st\<lparr>ui_messages := ui_messages st @
                             [JObj [(''from'', field msg ''from''), (''ts'', field msg ''ts''),
                                    (''payload'', obj)]]\<rparr>)
                 else Inr (st\<lparr>ticks := Suc (ticks st),
                              ui_messages := ui_messages st @
                             [JObj [(''from'', field msg ''from''), (''ts'', JNum (Date_now P (ticks st))),
                                    (''payload'', obj)]]\<rparr>))
           else Inr st)))))"

definition case_msg :: "platform \<Rightarrow> state \<Rightarrow> nat \<Rightarrow> js \<Rightarrow> outcome \<times> state" where
  "case_msg P st c msg =
     (case roomKey st of
        None \<Rightarrow> (Resolved, st\<lparr>console := console st @ [NoRoomKeyYet]\<rparr>)
      | Some key \<Rightarrow>
          (case msg_try P st key msg of
             Inr st1 \<Rightarrow> (Resolved, st1)
           | Inl err \<Rightarrow> (Resolved, st\<lparr>console := console st @ [DecryptMessageFailed]\<rparr>)))"

definition handleProtocolMessage :: "platform \<Rightarrow> state \<Rightarrow> nat \<Rightarrow> js \<Rightarrow> outcome \<times> state" where
  "handleProtocolMessage P st c msg =
     (case get_prop msg ''type'' of
        None \<Rightarrow> (Rejected TypeError, st)
      | Some t \<Rightarrow>
          if t = JStr ''publicKey'' then case_publicKey P st c msg
          else if t = JStr ''announce'' then case_announce P st c msg
          else if t = JStr ''roomKey'' then case_roomKey P st c msg
          else if t = JStr ''peerList'' then case_peerList P st c msg
          else if t = JStr ''newPeer'' then case_newPeer P st c msg
          else if t = JStr ''announceRequest'' then case_announceRequest P st c msg
          else if t = JStr ''msg'' then case_msg P st c msg
          else (Resolved, st))"

subsection \<open>sendPlain, announceToCreator\<close>

definition push_to_all :: "string \<Rightarrow> state \<Rightarrow> state" where
  "push_to_all data st =
     fold (\<lambda>(pid, c) s. if conn_open (conns s c) then conn_send s c data else s) (connMap st) st"

definition sendPlain :: "platform \<Rightarrow> state \<Rightarrow> js \<Rightarrow> outcome \<times> state" where
  "sendPlain P st obj =
     (case roomKey st of
        None \<Rightarrow> (Rejected NoRoomKey, st)
      | Some key \<Rightarrow>
          (let pt = JSON_stringify P obj;
               enc = encryptAESGCM P (draws st) key pt;
               st1 = st\<lparr>draws := Suc (draws st)\<rparr>;
               envelope = JObj [(''type'', JStr ''msg''), (''from'', my_peerId st1),
                                (''ts'', JNum (Date_now P (ticks st1))), (''payload'', enc)];
               st2 = st1\<lparr>ticks := Suc (ticks st1)\<rparr>;
               st3 = push_to_all (JSON_stringify P envelope) st2
           in if onMessageCallback st3
              then (Resolved,
                    st3\<lparr>ticks := Suc (ticks st3),
                        ui_messages := ui_messages st3 @
                          [JObj [(''from'', my_peerId st3), (''ts'', JNum (Date_now P (ticks st3))),
                                 (''payload'', obj)]]\<rparr>)
              else (Resolved, st3)))"

definition announceToCreator :: "platform \<Rightarrow> state \<Rightarrow> error + state" where
  "announceToCreator P st =
     (let creatorId = roomId st in
      case map_of (connMap st) creatorId of
        Some c \<Rightarrow>
          (if conn_open (conns st c)
           then Inr (conn_send st c (JSON_stringify P (announce_record st)))
           else (case connectToPeer st creatorId of
                   Inl e \<Rightarrow> Inl e
                 | Inr (c', st1) \<Rightarrow>
                     Inr (upd_conn st1 c' (\<lambda>x. x\<lparr>on_open := on_open x @ [AnnounceOnOpen]\<rparr>))))
      | None \<Rightarrow>
          (case connectToPeer st creatorId of
             Inl e \<Rightarrow> Inl e
           | Inr (c', st1) \<Rightarrow>
               Inr (upd_conn st1 c' (\<lambda>x. x\<lparr>on_open := on_open x @ [AnnounceOnOpen]\<rparr>))))"

subsection \<open>The events of a connection\<close>

definition run_open_handler :: "platform \<Rightarrow> nat \<Rightarrow> open_handler \<Rightarrow> state \<Rightarrow> state" where
  "run_open_handler P c h st =
     (case h of
        OutgoingOpen \<Rightarrow> conn_send st c (JSON_stringify P (publicKey_record st))
      | IncomingOpen \<Rightarrow>
          (let st1 = conn_send st c (JSON_stringify P (publicKey_record st));
               st2 = st1\<lparr>connMap := AList.update (conn_peer (conns st1 c)) c (connMap st1)\<rparr>
           in notifyParticipants st2)
      | DeliverRoomKey enc \<Rightarrow>
          (let st1 = conn_send st c (JSON_stringify P (roomKey_record st enc))
           in conn_send st1 c (JSON_stringify P (peerList_record st1)))
      | AnnounceOnOpen \<Rightarrow> conn_send st c (JSON_stringify P (announce_record st)))"

text \<open>
  The transport library opens the connection: it sets \<^verbatim>\<open>open\<close> and calls the handlers
  registered so far, in the order of their registration. The event occurs once for a
  connection: for a connection that is open, or was opened before, nothing happens, and
  a handler registered after the event is never called.
\<close>

definition emit_open :: "platform \<Rightarrow> state \<Rightarrow> nat \<Rightarrow> state" where
  "emit_open P st c =
     (if conn_open (conns st c) \<or> opened (conns st c) then st
      else
        let st1 = upd_conn st c (\<lambda>x. x\<lparr>conn_open := True, opened := True\<rparr>)
        in fold (run_open_handler P c) (on_open (conns st1 c)) st1)"

text \<open>
  Data arrives on a connection. The handler does not await the promise of
  \<^verbatim>\<open>handleProtocolMessage\<close>: a rejection reaches no caller.
\<close>

definition emit_data :: "platform \<Rightarrow> state \<Rightarrow> nat \<Rightarrow> js \<Rightarrow> state" where
  "emit_data P st c raw =
     (if on_data (conns st c)
      then (let (msg, ds) = parseSafe P raw;
                st1 = st\<lparr>console := console st @ ds\<rparr>
            in if truthy msg
               then (case handleProtocolMessage P st1 c msg of
                       (Resolved, st2) \<Rightarrow> st2
                     | (Rejected e, st2) \<Rightarrow> st2\<lparr>unhandled := unhandled st2 @ [e]\<rparr>)
               else st1)
      else st)"

definition emit_close :: "state \<Rightarrow> nat \<Rightarrow> state" where
  "emit_close st c =
     (let st1 = upd_conn st c (\<lambda>x. x\<lparr>conn_open := False\<rparr>)
      in if on_close (conns st1 c)
         then notifyParticipants (st1\<lparr>connMap := AList.delete (conn_peer (conns st1 c)) (connMap st1)\<rparr>)
         else st1)"

subsection \<open>init and the events of the peer\<close>

record opts =
  opts_roomId :: string
  opts_role :: js
  opts_username :: js
  opts_onMessage :: bool
  opts_onParticipants :: bool

definition init :: "platform \<Rightarrow> state \<Rightarrow> opts \<Rightarrow> state" where
  "init P st opts =
     (let creator = (opts_role opts = JStr ''create'');
          pair = generateECDHKeyPair P (draws st);
          pid = (if creator then opts_roomId opts
                 else opts_roomId opts @ '':'' @ randSuffix P (Suc (draws st)))
      in st\<lparr>roomId := JStr (opts_roomId opts),
            isCreator := creator,
            my_username := js_or (opts_username opts) (JStr ''Anon''),
            onMessageCallback := opts_onMessage opts,
            onParticipantChange := opts_onParticipants opts,
            my_ecdhPair := Some pair,
            my_pubB64 := JStr (exportPublicKeyToBase64 P (snd pair)),
            my_peerId := JStr pid,
            peer := True,
            draws := (if creator then Suc (draws st) else Suc (Suc (draws st)))\<rparr>)"

text \<open>The peer is registered with the rendezvous service (\<^verbatim>\<open>peer.on('open', ...)\<close>).\<close>

definition peer_open :: "platform \<Rightarrow> state \<Rightarrow> state" where
  "peer_open P st =
     (if isCreator st
      then st\<lparr>roomKey := Some (generateAESKey P (draws st)), draws := Suc (draws st)\<rparr>
      else (case connectToPeer st (roomId st) of
              Inl e \<Rightarrow> st\<lparr>unhandled := unhandled st @ [e]\<rparr>
            | Inr (c, st1) \<Rightarrow> st1))"

text \<open>
  A remote peer connects (\<^verbatim>\<open>peer.on('connection', ...)\<close>): the transport library has made
  a connection object for it, which the handler receives.
\<close>

definition peer_connection :: "state \<Rightarrow> js \<Rightarrow> nat \<times> state" where
  "peer_connection st remote =
     (let (c, st1) = peer_connect st remote
      in if isCreator st1 then (c, handleConnection st1 c) else (c, st1))"

section \<open>storage.js\<close>

type_synonym localStorage = "string \<Rightarrow> string option"

definition storage_key :: "string \<Rightarrow> string" where
  "storage_key room = ''chat:'' @ room"

text \<open>\<open>n\<close> is the index of the draw of the nonce.\<close>

definition save :: "platform \<Rightarrow> nat \<Rightarrow> localStorage \<Rightarrow> string \<Rightarrow> js \<Rightarrow> aeskey \<Rightarrow> localStorage" where
  "save P n ls room messages userKey =
     (let plaintext = JSON_stringify P messages;
          encObj = encryptAESGCM P n userKey plaintext
      in ls(storage_key room \<mapsto> JSON_stringify P encObj))"

text \<open>The body of the \<^verbatim>\<open>try\<close> block of \<^verbatim>\<open>load\<close> (the warning the \<^verbatim>\<open>catch\<close> block prints is not recorded).\<close>

definition load_try :: "platform \<Rightarrow> string \<Rightarrow> aeskey \<Rightarrow> error + js" where
  "load_try P raw userKey =
     (case JSON_parse P (JStr raw) of
        None \<Rightarrow> Inl BuiltinError
      | Some obj \<Rightarrow>
      (case get_prop obj ''iv'' of
        None \<Rightarrow> Inl TypeError
      | Some iv \<Rightarrow>
      (case get_prop obj ''ciphertext'' of
        None \<Rightarrow> Inl TypeError
      | Some ciphertext \<Rightarrow>
      (case decryptAESGCM P userKey iv ciphertext of
        Inl e \<Rightarrow> Inl e
      | Inr plaintext \<Rightarrow>
      (case JSON_parse P (JStr plaintext) of
        None \<Rightarrow> Inl BuiltinError
      | Some v \<Rightarrow> Inr v)))))"

definition load :: "platform \<Rightarrow> localStorage \<Rightarrow> string \<Rightarrow> aeskey \<Rightarrow> error + js" where
  "load P ls room userKey =
     (case ls (storage_key room) of
        None \<Rightarrow> Inr (JArr [])
      | Some raw \<Rightarrow>
          if raw = [] then Inr (JArr [])
          else (case load_try P raw userKey of
                  Inr v \<Rightarrow> Inr v
                | Inl err \<Rightarrow> Inl DecryptionFailed))"

section \<open>A small platform\<close>

text \<open>
  An instance of the platform on which the model can be run: JSON text is a bracketed
  rendering that is read back by comparison with the renderings of the values listed in
  \<open>toy_values\<close> (\<^verbatim>\<open>null\<close>, a number and a boolean are also read back when they are given
  as such), base64 is the identity, and a ciphertext is the plaintext behind the key and
  the nonce, so that decryption under another key or nonce fails.
\<close>

fun toy_render :: "js \<Rightarrow> string" where
  "toy_render JUndefined = ''undefined''"
| "toy_render JNull = ''null''"
| "toy_render (JBool b) = (if b then ''true'' else ''false'')"
| "toy_render (JNum n) = (if n < 0 then ''-'' else ''+'') @ replicate (nat \<bar>n\<bar>) CHR ''|''"
| "toy_render (JStr s) = ''<'' @ s @ ''>''"
| "toy_render (JArr xs) = ''['' @ concat (map (\<lambda>x. toy_render x @ '','') xs) @ '']''"
| "toy_render (JObj kvs) =
     ''{'' @ concat (map (\<lambda>(k, v). k @ '':'' @ toy_render v @ '','') kvs) @ ''}''"

definition toy_encrypt :: "aeskey \<Rightarrow> bytes \<Rightarrow> bytes \<Rightarrow> bytes" where
  "toy_encrypt key iv pt = (case key of AesKey k e \<Rightarrow> k @ iv @ pt)"

definition toy_decrypt :: "aeskey \<Rightarrow> bytes \<Rightarrow> bytes \<Rightarrow> bytes option" where
  "toy_decrypt key iv ct =
     (case key of AesKey k e \<Rightarrow>
        if take (length k + length iv) ct = k @ iv then Some (drop (length k + length iv) ct)
        else None)"

definition toy_deriveBits :: "privkey \<Rightarrow> pubkey \<Rightarrow> bytes" where
  "toy_deriveBits a b = (case a of PrivateKey x \<Rightarrow> case b of PublicKey y \<Rightarrow> map2 (*) x y)"

definition toy_values :: "js list" where
  "toy_values =
     [JObj [(''text'', JStr ''hi'')],
      JArr [JObj [(''text'', JStr ''hi'')]],
      JObj [(''iv'', JStr ''AAAAAAAAAAAA''),
            (''ciphertext'', JStr ''kAAAAAAAAAAAA[{text:<hi>,},]'')],
      JNull,
      JNum 5,
      JStr ''x'']"

definition toy :: platform where
  "toy =
     \<lparr>JSON_parse =
        (\<lambda>raw. case raw of
                 JStr s \<Rightarrow> find (\<lambda>v. toy_render v = s) toy_values
               | JNull \<Rightarrow> Some JNull
               | JNum n \<Rightarrow> Some (JNum n)
               | JBool b \<Rightarrow> Some (JBool b)
               | _ \<Rightarrow> None),
      JSON_stringify = toy_render,
      btoa = (\<lambda>s. s),
      atob = (\<lambda>v. case v of JStr s \<Rightarrow> Some s | _ \<Rightarrow> None),
      TextEncoder_encode = map of_char,
      TextDecoder_decode = map (\<lambda>b. char_of (unat b)),
      getRandomValues = (\<lambda>n len. replicate len (of_nat n + 65)),
      Math_random_base36 = (\<lambda>n. ''0.k3x9q2m7w1''),
      Date_now = (\<lambda>n. 5 + int n),
      generateKey_ECDH = (\<lambda>n. (PrivateKey [of_nat n + 67], PublicKey [of_nat n + 67])),
      generateKey_AES = (\<lambda>n. AesKey [of_nat n + 107] True),
      exportKey_ECDH = (\<lambda>k. case k of PublicKey b \<Rightarrow> b),
      exportKey_AES = (\<lambda>k. case k of AesKey b e \<Rightarrow> if e then Some b else None),
      importKey_ECDH = (\<lambda>b. if b = [] then None else Some (PublicKey b)),
      importKey_AES = (\<lambda>b e. if b = [] then None else Some (AesKey b e)),
      deriveBits = toy_deriveBits,
      AES_GCM_encrypt = toy_encrypt,
      AES_GCM_decrypt = toy_decrypt\<rparr>"

section \<open>Runs of the model on the small platform\<close>

definition creator_opts :: opts where
  "creator_opts =
     \<lparr>opts_roomId = ''room'', opts_role = JStr ''create'', opts_username = JStr ''al'',
      opts_onMessage = True, opts_onParticipants = True\<rparr>"

definition joiner_opts :: opts where
  "joiner_opts =
     \<lparr>opts_roomId = ''room'', opts_role = JStr ''join'', opts_username = JStr ''bo'',
      opts_onMessage = True, opts_onParticipants = True\<rparr>"

text \<open>The creator after \<^verbatim>\<open>init\<close> and registration: it holds a room key and no connection.\<close>

definition creator_ready :: state where
  "creator_ready = peer_open toy (init toy module_state creator_opts)"

text \<open>Two joiners have connected to the creator; both connections (0 and 1) are open.\<close>

definition creator_two :: state where
  "creator_two =
     (let (a, s1) = peer_connection creator_ready (JStr ''room:a'');
          s2 = emit_open toy s1 a;
          (b, s3) = peer_connection s2 (JStr ''room:b'')
      in emit_open toy s3 b)"

definition announce_b :: js where
  "announce_b =
     JObj [(''type'', JStr ''announce''), (''from'', JStr ''room:b''),
           (''payload'', JObj [(''pubKey'', JStr ''Q'')])]"

text \<open>The creator after the announce of the joiner \<open>room:b\<close> has arrived on connection 1.\<close>

definition creator_after_announce_b :: state where
  "creator_after_announce_b = emit_data toy creator_two 1 announce_b"

text \<open>An announce of an identity that has no connection yet, and the creator after it.\<close>

definition announce_c :: js where
  "announce_c =
     JObj [(''type'', JStr ''announce''), (''from'', JStr ''room:c''),
           (''payload'', JObj [(''pubKey'', JStr ''Q'')])]"

definition creator_after_announce_c :: state where
  "creator_after_announce_c = emit_data toy creator_two 1 announce_c"

text \<open>An announce that names the creator itself as its sender.\<close>

definition announce_self :: js where
  "announce_self =
     JObj [(''type'', JStr ''announce''), (''from'', JStr ''room''),
           (''payload'', JObj [(''pubKey'', JStr ''D'')])]"

definition creator_after_announce_self :: state where
  "creator_after_announce_self = emit_data toy creator_two 1 announce_self"

text \<open>
  A joiner after \<^verbatim>\<open>init\<close> and registration, whose connection 0 to the creator is open and
  has delivered the creator's \<^verbatim>\<open>publicKey\<close> record; it has no room key yet.
\<close>

definition publicKey_c :: js where
  "publicKey_c =
     JObj [(''type'', JStr ''publicKey''), (''from'', JStr ''room''), (''payload'', JStr ''C''),
           (''username'', JStr ''al'')]"

definition publicKey_e :: js where
  "publicKey_e =
     JObj [(''type'', JStr ''publicKey''), (''from'', JStr ''room''), (''payload'', JStr ''E''),
           (''username'', JStr ''al'')]"

definition joiner_awaiting :: state where
  "joiner_awaiting =
     emit_data toy (emit_open toy (peer_open toy (init toy module_state joiner_opts)) 0) 0 publicKey_c"

definition joiner_rekeyed :: state where
  "joiner_rekeyed = emit_data toy joiner_awaiting 0 publicKey_e"

text \<open>Another joiner connects to this joiner, and the connection (1) opens.\<close>

definition joiner_after_inbound :: state where
  "joiner_after_inbound =
     emit_open toy (snd (peer_connection joiner_awaiting (JStr ''room:a''))) 1"

definition chat_early :: js where
  "chat_early =
     JObj [(''type'', JStr ''msg''), (''from'', JStr ''room''),
           (''payload'', JObj [(''iv'', JStr ''x''), (''ciphertext'', JStr ''y'')])]"

definition roomKey_delivery :: js where
  "roomKey_delivery =
     JObj [(''type'', JStr ''roomKey''), (''from'', JStr ''room''),
           (''payload'', JObj [(''iv'', JStr ''CCCCCCCCCCCC''),
                               (''ciphertext'', JStr (CHR 0x89 # ''CCCCCCCCCCCCl''))])]"

definition chat_late :: js where
  "chat_late =
     JObj [(''type'', JStr ''msg''), (''from'', JStr ''room''), (''ts'', JNum 7),
           (''payload'', JObj [(''iv'', JStr ''BBBBBBBBBBBB''),
                               (''ciphertext'', JStr ''lBBBBBBBBBBBB{text:<hi>,}'')])]"

definition ping :: js where
  "ping = JObj [(''type'', JStr ''ping''), (''from'', JStr ''room'')]"

definition newPeer_known :: js where
  "newPeer_known =
     JObj [(''type'', JStr ''newPeer''), (''from'', JStr ''room''),
           (''payload'', JObj [(''peerId'', JStr ''room'')])]"

definition hi :: js where
  "hi = JObj [(''text'', JStr ''hi'')]"

definition garbage :: js where
  "garbage = JStr ''{type:''"

text \<open>The JSON text of \<^verbatim>\<open>null\<close>, and an array.\<close>

definition text_null :: js where
  "text_null = JStr ''null''"

definition array_datum :: js where
  "array_datum = JArr [JStr ''x'']"

definition stored_blob :: js where
  "stored_blob = JObj [(''iv'', JStr ''AAAAAAAAAAAA''), (''ciphertext'', JStr ''kAAAAAAAAAAAA[{text:<hi>,},]'')]"

text \<open>A stored history of one message, and the store that holds it under the key \<open>k\<close>.\<close>

definition history :: js where
  "history = JArr [JObj [(''text'', JStr ''hi'')]]"

definition key_k :: aeskey where
  "key_k = AesKey [107] True"

definition key_l :: aeskey where
  "key_l = AesKey [108] True"

definition stored :: localStorage where
  "stored = save toy 0 Map.empty ''room'' history key_k"

section \<open>Auxiliary notions\<close>

text \<open>The step of the two loops that send one record over the connections of the registry.\<close>

definition send_step :: "(js \<Rightarrow> bool) \<Rightarrow> (js \<Rightarrow> string) \<Rightarrow> js \<times> nat \<Rightarrow> state \<Rightarrow> state" where
  "send_step skip g =
     (\<lambda>(pid, c) s. if skip pid then s
        else if conn_open (conns s c) then conn_send s c (g (my_peerId s)) else s)"

text \<open>
  The later state has all connections of the earlier one, with the same remote public keys.
\<close>

definition keeps_keys :: "state \<Rightarrow> state \<Rightarrow> bool" where
  "keeps_keys st st' \<longleftrightarrow>
     next_conn st \<le> next_conn st' \<and>
     (\<forall>c' < next_conn st. theirPub (conns st' c') = theirPub (conns st c'))"


section \<open>Lemmas about the functions\<close>

lemma byte_char_byte: "of_char (char_of (unat (b :: 8 word))) = b"
proof -
  have lt: "unat b < 256" using unsigned_less [of b] by simp
  have "(of_char (char_of (unat b)) :: 8 word) = of_nat (of_char (char_of (unat b)))"
    by (simp only: of_nat_of_char)
  also have "\<dots> = of_nat (unat b)" using lt by (simp add: of_char_of)
  finally show ?thesis by simp
qed

lemma char_byte_char: "char_of (unat (of_char c :: 8 word)) = c"
proof -
  have "unat (of_char c :: 8 word) = unat (of_nat (of_char c) :: 8 word)"
    by (simp only: of_nat_of_char)
  also have "\<dots> = of_char c mod 256" by (simp add: unat_of_nat)
  finally show ?thesis by (simp add: char_of_mod_256)
qed

lemma b642ab_ab2b64:
  "(\<forall>s. atob P (JStr (btoa P s)) = Some s) \<Longrightarrow> b642ab P (JStr (ab2b64 P ab)) = Some ab"
  by (simp add: b642ab_def ab2b64_def o_def byte_char_byte)


lemma load_stored:
  "ls (storage_key room) = Some raw \<Longrightarrow> raw \<noteq> [] \<Longrightarrow>
   load P ls room K = (case load_try P raw K of Inr v \<Rightarrow> Inr v | Inl e \<Rightarrow> Inl DecryptionFailed)"
  by (simp add: load_def)

lemma roomKey_try_console [simp]:
  "roomKey_try P (st\<lparr>console := d\<rparr>) c msg = roomKey_try P st c msg"
  by (simp add: roomKey_try_def cong: option.case_cong)

lemma update_absent: "map_of al k = None \<Longrightarrow> AList.update k v al = al @ [(k, v)]"
  by (induction al) (auto split: if_splits)

lemma conn_send_frame [simp]:
  "peer (conn_send st c d) = peer st"
  "connMap (conn_send st c d) = connMap st"
  "my_peerId (conn_send st c d) = my_peerId st"
  "roomKey (conn_send st c d) = roomKey st"
  "next_conn (conn_send st c d) = next_conn st"
  "conn_open (conns (conn_send st c d) c') = conn_open (conns st c')"
  "opened (conns (conn_send st c d) c') = opened (conns st c')"
  "theirPub (conns (conn_send st c d) c') = theirPub (conns st c')"
  "on_open (conns (conn_send st c d) c') = on_open (conns st c')"
  by (simp_all add: conn_send_def upd_conn_def)

lemma fold_send_step:
  "fold (send_step skip g) xs st =
     st\<lparr>conns := \<lambda>c'. if conn_open (conns st c')
                       then (conns st c')\<lparr>sent := sent (conns st c') @
                              replicate (length (filter (\<lambda>(pid, c). \<not> skip pid \<and> c = c') xs)) (g (my_peerId st))\<rparr>
                       else conns st c'\<rparr>"
proof (induction xs arbitrary: st)
  case Nil
  show ?case by (simp cong: if_cong)
next
  case (Cons x xs)
  obtain pid c where x: "x = (pid, c)" by (cases x)
  show ?case
  proof (cases "skip pid \<or> \<not> conn_open (conns st c)")
    case True
    then have "send_step skip g x st = st" by (auto simp: send_step_def x)
    moreover from True have "\<And>c'. conn_open (conns st c') \<Longrightarrow>
        length (filter (\<lambda>(pid, c). \<not> skip pid \<and> c = c') (x # xs)) = length (filter (\<lambda>(pid, c). \<not> skip pid \<and> c = c') xs)"
      by (auto simp: x)
    ultimately show ?thesis
      by (simp add: Cons.IH cong: if_cong)
  next
    case False
    then have s: "send_step skip g x st = conn_send st c (g (my_peerId st))" by (simp add: send_step_def x)
    show ?thesis
      using False
      apply (simp add: s Cons.IH)
      apply (simp add: conn_send_def upd_conn_def x fun_eq_iff replicate_app_Cons_same)
      done
  qed
qed

lemma push_to_all_send_step:
  "push_to_all data st = fold (send_step (\<lambda>pid. False) (\<lambda>me. data)) (connMap st) st"
  unfolding push_to_all_def send_step_def by simp

lemma inform_existing_send_step:
  "inform_existing P theirId st =
     fold (send_step (\<lambda>pid. pid = theirId)
             (\<lambda>me. JSON_stringify P (JObj [(''type'', JStr ''newPeer''), (''from'', me),
                                            (''payload'', JObj [(''peerId'', theirId)])])))
          (connMap st) st"
  unfolding inform_existing_def send_step_def newPeer_record_def by (rule refl)

lemma inform_existing_frame [simp]:
  "connMap (inform_existing P t st) = connMap st"
  "next_conn (inform_existing P t st) = next_conn st"
  "roomKey (inform_existing P t st) = roomKey st"
  "peer (inform_existing P t st) = peer st"
  "my_peerId (inform_existing P t st) = my_peerId st"
  "isCreator (inform_existing P t st) = isCreator st"
  "draws (inform_existing P t st) = draws st"
  "ui_messages (inform_existing P t st) = ui_messages st"
  "ui_participants (inform_existing P t st) = ui_participants st"
  "theirPub (conns (inform_existing P t st) c) = theirPub (conns st c)"
  "on_open (conns (inform_existing P t st) c) = on_open (conns st c)"
  "conn_open (conns (inform_existing P t st) c) = conn_open (conns st c)"
  "opened (conns (inform_existing P t st) c) = opened (conns st c)"
  by (simp_all add: inform_existing_send_step fold_send_step)

lemma notifyParticipants_frame [simp]:
  "peer (notifyParticipants st) = peer st"
  "connMap (notifyParticipants st) = connMap st"
  "my_peerId (notifyParticipants st) = my_peerId st"
  "my_ecdhPair (notifyParticipants st) = my_ecdhPair st"
  "roomKey (notifyParticipants st) = roomKey st"
  "isCreator (notifyParticipants st) = isCreator st"
  "next_conn (notifyParticipants st) = next_conn st"
  "draws (notifyParticipants st) = draws st"
  "conns (notifyParticipants st) = conns st"
  "my_pubB64 (notifyParticipants st) = my_pubB64 st"
  "my_username (notifyParticipants st) = my_username st"
  by (simp_all add: notifyParticipants_def)

lemma connectToPeer_fresh:
  assumes "peer st" and "map_of (connMap st) p = None"
  shows "\<exists>s. connectToPeer st p = Inr (next_conn st, s) \<and>
           connMap s = connMap st @ [(p, next_conn st)] \<and>
           next_conn s = Suc (next_conn st) \<and>
           (\<forall>c'. c' \<noteq> next_conn st \<longrightarrow> conns s c' = conns st c') \<and>
           conns s (next_conn st) =
             (new_conn p)\<lparr>on_open := [OutgoingOpen], on_data := True, on_close := True\<rparr> \<and>
           my_peerId s = my_peerId st \<and> my_ecdhPair s = my_ecdhPair st \<and>
           roomKey s = roomKey st \<and> isCreator s = isCreator st \<and> draws s = draws st \<and>
           my_pubB64 s = my_pubB64 st \<and> my_username s = my_username st \<and> peer s"
  using assms
  by (simp add: connectToPeer_def peer_connect_def upd_conn_def Let_def update_absent new_conn_def)

text \<open>
  The announce case, for a creator that holds a room key and keys that the crypto library
  accepts. When the sender is not registered, a connection is opened to it, and its open
  event sends the publicKey record, the roomKey record with the encrypted room key and the
  peerList record. When the sender is registered, the handler for these two records is
  added to the registered connection; if that connection is open or was opened, its open
  event does not occur again, and nothing has been sent on it to the sender.
\<close>

lemma announce_from_unregistered:
  assumes "isCreator st" and "peer st"
    and "my_ecdhPair st = Some (priv, pub)"
    and "roomKey st = Some rk"
    and "get_prop msg ''type'' = Some (JStr ''announce'')"
    and "get_prop (field msg ''payload'') ''pubKey'' = Some K"
    and "importPublicKeyFromBase64 P K = Inr pk"
    and "deriveSharedAESKey P priv (Some pk) = Inr derived"
    and "exportAESKeyToBase64 P (Some rk) = Inr roomRaw"
    and none: "map_of (connMap st) (field msg ''from'') = None"
  defines "theirId \<equiv> field msg ''from''"
    and "enc \<equiv> JObj [(''iv'', JStr (ab2b64 P (getRandomValues P (draws st) 12))),
                      (''ciphertext'',
                       JStr (ab2b64 P (AES_GCM_encrypt P derived (getRandomValues P (draws st) 12)
                                         (TextEncoder_encode P roomRaw))))]"
  shows "case handleProtocolMessage P st c msg of (r, st') \<Rightarrow>
     r = Resolved \<and> roomKey st' = Some rk \<and>
     connMap st' = connMap st @ [(theirId, next_conn st)] \<and>
     on_open (conns st' (next_conn st)) = [OutgoingOpen, DeliverRoomKey enc] \<and>
     sent (conns (emit_open P st' (next_conn st)) (next_conn st)) =
       [JSON_stringify P (publicKey_record st),
        JSON_stringify P
          (JObj [(''type'', JStr ''roomKey''), (''from'', my_peerId st), (''payload'', enc)]),
        JSON_stringify P
          (JObj [(''type'', JStr ''peerList''), (''from'', my_peerId st),
                 (''payload'', JArr (map fst (connMap st) @ [theirId, my_peerId st]))])] \<and>
     (\<forall>c' < next_conn st.
        sent (conns st' c') =
        sent (conns st c') @
        (if conn_open (conns st c')
         then replicate (length (filter (\<lambda>(pid, x). pid \<noteq> theirId \<and> x = c') (connMap st)))
                (JSON_stringify P (newPeer_record st theirId))
         else []))"
proof -
  from none have None: "map_of (connMap st) theirId = None" by (simp add: theirId_def)
  from connectToPeer_fresh [OF \<open>peer st\<close> None]
  obtain s where s: "connectToPeer st theirId = Inr (next_conn st, s)"
      "connMap s = connMap st @ [(theirId, next_conn st)]"
      "\<forall>c'. c' \<noteq> next_conn st \<longrightarrow> conns s c' = conns st c'"
      "conns s (next_conn st) =
         (new_conn theirId)\<lparr>on_open := [OutgoingOpen], on_data := True, on_close := True\<rparr>"
      "my_peerId s = my_peerId st" "my_ecdhPair s = my_ecdhPair st"
      "roomKey s = roomKey st" "isCreator s = isCreator st" "draws s = draws st"
      "my_pubB64 s = my_pubB64 st" "my_username s = my_username st"
    by blast
  define st3 where "st3 =
     upd_conn ((upd_conn s (next_conn st) (\<lambda>x. x\<lparr>theirPub := Some pk\<rparr>))\<lparr>draws := Suc (draws st)\<rparr>)
       (next_conn st) (\<lambda>x. x\<lparr>on_open := on_open x @ [DeliverRoomKey enc]\<rparr>)"
  have r: "handleProtocolMessage P st c msg = (Resolved, inform_existing P theirId st3)"
    using assms(1-9) None s
    by (simp add: handleProtocolMessage_def case_announce_def Let_def theirId_def [symmetric]
          st3_def enc_def upd_conn_def encryptAESGCM_def)
  have f: "connMap st3 = connMap st @ [(theirId, next_conn st)]" "my_peerId st3 = my_peerId st"
      "roomKey st3 = Some rk" "my_pubB64 st3 = my_pubB64 st" "my_username st3 = my_username st"
      "conns st3 (next_conn st) =
         (new_conn theirId)\<lparr>theirPub := Some pk, on_open := [OutgoingOpen, DeliverRoomKey enc],
                             on_data := True, on_close := True\<rparr>"
      "\<forall>c'. c' \<noteq> next_conn st \<longrightarrow> conns st3 c' = conns st c'"
    using s assms(1,4) by (simp_all add: st3_def upd_conn_def new_conn_def)
  let ?st' = "inform_existing P theirId st3"
  have g: "conns ?st' (next_conn st) = conns st3 (next_conn st)"
    unfolding inform_existing_send_step fold_send_step using f by (simp add: new_conn_def)
  have h: "connMap ?st' = connMap st3" "my_peerId ?st' = my_peerId st" 
    "my_pubB64 ?st' = my_pubB64 st" "my_username ?st' = my_username st"
    unfolding inform_existing_send_step fold_send_step using f by simp_all
  have d: "sent (conns (emit_open P ?st' (next_conn st)) (next_conn st)) =
       [JSON_stringify P (publicKey_record st),
        JSON_stringify P
          (JObj [(''type'', JStr ''roomKey''), (''from'', my_peerId st), (''payload'', enc)]),
        JSON_stringify P
          (JObj [(''type'', JStr ''peerList''), (''from'', my_peerId st),
                 (''payload'', JArr (map fst (connMap st) @ [theirId, my_peerId st]))])]"
    using f h
    by (simp add: emit_open_def g Let_def new_conn_def upd_conn_def run_open_handler_def
          conn_send_def publicKey_record_def roomKey_record_def peerList_record_def)
  have b: "\<forall>c' < next_conn st.
        sent (conns ?st' c') =
        sent (conns st c') @
        (if conn_open (conns st c')
         then replicate (length (filter (\<lambda>(pid, x). pid \<noteq> theirId \<and> x = c') (connMap st)))
                (JSON_stringify P (newPeer_record st theirId))
         else [])"
    unfolding inform_existing_send_step fold_send_step using f by (simp add: newPeer_record_def)
  show ?thesis
    unfolding r using f g h d b by simp
qed

lemma announce_from_registered:
  assumes "isCreator st"
    and "my_ecdhPair st = Some (priv, pub)"
    and "roomKey st = Some rk"
    and "get_prop msg ''type'' = Some (JStr ''announce'')"
    and "get_prop (field msg ''payload'') ''pubKey'' = Some K"
    and "importPublicKeyFromBase64 P K = Inr pk"
    and "deriveSharedAESKey P priv (Some pk) = Inr derived"
    and "exportAESKeyToBase64 P (Some rk) = Inr roomRaw"
    and some: "map_of (connMap st) (field msg ''from'') = Some c0"
    and was_open: "conn_open (conns st c0) \<or> opened (conns st c0)"
  defines "theirId \<equiv> field msg ''from''"
    and "enc \<equiv> JObj [(''iv'', JStr (ab2b64 P (getRandomValues P (draws st) 12))),
                      (''ciphertext'',
                       JStr (ab2b64 P (AES_GCM_encrypt P derived (getRandomValues P (draws st) 12)
                                         (TextEncoder_encode P roomRaw))))]"
  shows "case handleProtocolMessage P st c msg of (r, st') \<Rightarrow>
     r = Resolved \<and> connMap st' = connMap st \<and> next_conn st' = next_conn st \<and>
     on_open (conns st' c0) = on_open (conns st c0) @ [DeliverRoomKey enc] \<and>
     sent (conns st' c0) =
       sent (conns st c0) @
       (if conn_open (conns st c0)
        then replicate (length (filter (\<lambda>(pid, x). pid \<noteq> theirId \<and> x = c0) (connMap st)))
               (JSON_stringify P (newPeer_record st theirId))
        else []) \<and>
     emit_open P st' c0 = st'"
proof -
  from some have Some: "map_of (connMap st) theirId = Some c0" by (simp add: theirId_def)
  define st3 where "st3 =
     upd_conn (st\<lparr>draws := Suc (draws st)\<rparr>) c0 (\<lambda>x. x\<lparr>on_open := on_open x @ [DeliverRoomKey enc]\<rparr>)"
  have r: "handleProtocolMessage P st c msg = (Resolved, inform_existing P theirId st3)"
    using assms(1-8) Some
    by (simp add: handleProtocolMessage_def case_announce_def Let_def theirId_def [symmetric]
          st3_def enc_def encryptAESGCM_def)
  have f: "connMap st3 = connMap st" "my_peerId st3 = my_peerId st" "next_conn st3 = next_conn st"
      "on_open (conns st3 c0) = on_open (conns st c0) @ [DeliverRoomKey enc]"
      "\<forall>c'. sent (conns st3 c') = sent (conns st c') \<and>
            conn_open (conns st3 c') = conn_open (conns st c') \<and>
            opened (conns st3 c') = opened (conns st c')"
    by (simp_all add: st3_def upd_conn_def)
  let ?st' = "inform_existing P theirId st3"
  have b: "sent (conns ?st' c0) =
       sent (conns st c0) @
       (if conn_open (conns st c0)
        then replicate (length (filter (\<lambda>(pid, x). pid \<noteq> theirId \<and> x = c0) (connMap st)))
               (JSON_stringify P (newPeer_record st theirId))
        else [])"
    unfolding inform_existing_send_step fold_send_step using f by (simp add: newPeer_record_def)
  have e: "emit_open P ?st' c0 = ?st'"
    using was_open f by (simp add: emit_open_def)
  show ?thesis
    unfolding r using f b e by simp
qed

lemma keeps_keys_refl [simp]: "keeps_keys st st"
  by (simp add: keeps_keys_def)

lemma keeps_keys_trans: "keeps_keys a b \<Longrightarrow> keeps_keys b c \<Longrightarrow> keeps_keys a c"
  by (auto simp: keeps_keys_def)

lemma connectToPeer_keeps_keys:
  "connectToPeer st p = Inr (c, s) \<Longrightarrow> keeps_keys st s"
  by (auto simp: connectToPeer_def peer_connect_def upd_conn_def Let_def keeps_keys_def
           split: if_splits option.splits)

lemma connectToPeer_result:
  "connectToPeer st p = Inr (c, s) \<Longrightarrow>
     (map_of (connMap st) p = Some c \<and> s = st) \<or> (map_of (connMap st) p = None \<and> c = next_conn st)"
  by (auto simp: connectToPeer_def peer_connect_def Let_def split: if_splits option.splits)

lemma peerList_loop_keeps_keys:
  "peerList_loop st xs = (r, s) \<Longrightarrow> keeps_keys st s"
proof (induction xs arbitrary: st)
  case Nil
  then show ?case by simp
next
  case (Cons pid rest)
  show ?case
  proof (cases "pid = my_peerId st \<or> map_of (connMap st) pid \<noteq> None")
    case True
    with Cons show ?thesis by simp
  next
    case False
    show ?thesis
    proof (cases "connectToPeer st pid")
      case (Inl e)
      with False Cons.prems show ?thesis by simp
    next
      case (Inr b)
      obtain c s1 where b: "b = (c, s1)" by (cases b)
      from Inr b have "keeps_keys st s1" by (simp add: connectToPeer_keeps_keys)
      moreover from False Inr b Cons.prems have "peerList_loop s1 rest = (r, s)" by simp
      then have "keeps_keys s1 s" by (rule Cons.IH)
      ultimately show ?thesis by (rule keeps_keys_trans)
    qed
  qed
qed

lemma case_announce_keeps_keys:
  "case_announce P st c msg = (r, s) \<Longrightarrow> keeps_keys st s"
proof -
  assume a: "case_announce P st c msg = (r, s)"
  show ?thesis
  proof (cases "map_of (connMap st) (field msg ''from'')")
    case (Some c0)
    with a show ?thesis
      by (auto simp: case_announce_def Let_def keeps_keys_def upd_conn_def
               split: if_splits option.splits sum.splits prod.splits)
  next
    case None
    show ?thesis
    proof (cases "connectToPeer st (field msg ''from'')")
      case (Inl e)
      with a None show ?thesis
        by (auto simp: case_announce_def Let_def split: if_splits option.splits sum.splits)
    next
      case (Inr b)
      obtain cn s1 where b: "b = (cn, s1)" by (cases b)
      from Inr b have k: "keeps_keys st s1" by (simp add: connectToPeer_keeps_keys)
      from Inr b None have cn: "cn = next_conn st" by (auto dest: connectToPeer_result)
      from a None Inr b k cn show ?thesis
        by (auto simp: case_announce_def Let_def keeps_keys_def upd_conn_def
               split: if_splits option.splits sum.splits prod.splits)
    qed
  qed
qed

lemma other_cases_keep_keys:
  "case_roomKey P st c msg = (r, s) \<Longrightarrow> keeps_keys st s"
  "case_peerList P st c msg = (r, s) \<Longrightarrow> keeps_keys st s"
  "case_newPeer P st c msg = (r, s) \<Longrightarrow> keeps_keys st s"
  "case_announceRequest P st c msg = (r, s) \<Longrightarrow> keeps_keys st s"
  "case_msg P st c msg = (r, s) \<Longrightarrow> keeps_keys st s"
      apply (auto simp: case_roomKey_def keeps_keys_def split: sum.splits)[1]
     apply (auto simp: case_peerList_def dest: peerList_loop_keeps_keys split: option.splits)[1]
    apply (auto simp: case_newPeer_def dest: connectToPeer_keeps_keys split: option.splits if_splits sum.splits)[1]
   apply (auto simp: case_announceRequest_def keeps_keys_def split: if_splits)[1]
  apply (auto simp: case_msg_def msg_try_def keeps_keys_def split: option.splits sum.splits if_splits)[1]
  done

text \<open>
  The peerList and newPeer cases never register a connection under the local identity.
\<close>

lemma connectToPeer_registry:
  "connectToPeer st p = Inr (c, s) \<Longrightarrow>
     my_peerId s = my_peerId st \<and>
     (\<forall>q. q \<noteq> p \<longrightarrow> map_of (connMap s) q = map_of (connMap st) q)"
  by (auto simp: connectToPeer_def peer_connect_def upd_conn_def Let_def update_conv'
           split: if_splits option.splits)

lemma newPeer_skips_own_identity:
  assumes "map_of (connMap st) (my_peerId st) = None"
    and "case_newPeer P st c msg = (r, s)"
  shows "map_of (connMap s) (my_peerId s) = None"
  using assms
  by (auto simp: case_newPeer_def split: option.splits if_splits sum.splits
           dest!: connectToPeer_registry)

lemma peerList_loop_skips_own_identity:
  "map_of (connMap st) (my_peerId st) = None \<Longrightarrow> peerList_loop st xs = (r, s) \<Longrightarrow>
     map_of (connMap s) (my_peerId s) = None"
proof (induction xs arbitrary: st)
  case Nil
  then show ?case by simp
next
  case (Cons pid rest)
  show ?case
  proof (cases "pid = my_peerId st \<or> map_of (connMap st) pid \<noteq> None")
    case True
    with Cons show ?thesis by simp
  next
    case False
    show ?thesis
    proof (cases "connectToPeer st pid")
      case (Inl e)
      with False Cons.prems show ?thesis by simp
    next
      case (Inr b)
      obtain c s1 where b: "b = (c, s1)" by (cases b)
      from Inr b False Cons.prems(1) have "map_of (connMap s1) (my_peerId s1) = None"
        by (auto dest!: connectToPeer_registry)
      moreover from False Inr b Cons.prems have "peerList_loop s1 rest = (r, s)" by simp
      ultimately show ?thesis by (rule Cons.IH)
    qed
  qed
qed

lemma peerList_skips_own_identity:
  assumes "map_of (connMap st) (my_peerId st) = None"
    and "case_peerList P st c msg = (r, s)"
  shows "map_of (connMap s) (my_peerId s) = None"
  using assms
  by (auto simp: case_peerList_def split: option.splits dest: peerList_loop_skips_own_identity)

lemmas toy_defs = toy_def toy_encrypt_def toy_decrypt_def toy_deriveBits_def toy_values_def

lemmas model_defs =
  module_state_def init_def peer_open_def peer_connection_def peer_connect_def
  handleConnection_def emit_open_def emit_data_def emit_close_def run_open_handler_def
  conn_send_def upd_conn_def new_conn_def notifyParticipants_def connectToPeer_def parseSafe_def
  handleProtocolMessage_def case_publicKey_def case_announce_def case_roomKey_def
  case_peerList_def case_newPeer_def case_announceRequest_def case_msg_def roomKey_try_def
  msg_try_def inform_existing_def push_to_all_def sendPlain_def field_def js_or_def
  publicKey_record_def announce_record_def roomKey_record_def peerList_record_def
  newPeer_record_def randSuffix_def ab2b64_def b642ab_def generateECDHKeyPair_def
  exportPublicKeyToBase64_def importPublicKeyFromBase64_def deriveSharedAESKey_def
  generateAESKey_def exportAESKeyToBase64_def importAESKeyFromBase64_def encryptAESGCM_def
  decryptAESGCM_def save_def load_def load_try_def storage_key_def toy_defs Let_def

subsection \<open>The runs, evaluated\<close>

lemma replicate_12: "replicate 12 x = [x, x, x, x, x, x, x, x, x, x, x, x]"
  by (simp add: eval_nat_numeral)

lemma creator_two_eval:
  "isCreator creator_two" "peer creator_two"
  "my_ecdhPair creator_two = Some (PrivateKey [67], PublicKey [67])"
  "roomKey creator_two = Some (AesKey [108] True)"
  "my_peerId creator_two = JStr ''room''"
  "connMap creator_two = [(JStr ''room:a'', 0), (JStr ''room:b'', 1)]"
  "next_conn creator_two = 2"
  "draws creator_two = 2"
  "ticks creator_two = 0"
  "onMessageCallback creator_two"
  "ui_messages creator_two = []"
  "conn_open (conns creator_two 0)" "conn_open (conns creator_two 1)"
  "on_open (conns creator_two 1) = [IncomingOpen]"
  "on_data (conns creator_two 1)"
  "sent (conns creator_two 0) = [''{type:<publicKey>,from:<room>,payload:<C>,username:<al>,}'']"
  "sent (conns creator_two 1) = [''{type:<publicKey>,from:<room>,payload:<C>,username:<al>,}'']"
  by (simp_all add: creator_two_def creator_ready_def creator_opts_def model_defs char_of_def bit_0)

lemma joiner_awaiting_eval:
  "roomKey joiner_awaiting = None"
  "\<not> isCreator joiner_awaiting"
  "peer joiner_awaiting"
  "my_ecdhPair joiner_awaiting = Some (PrivateKey [67], PublicKey [67])"
  "my_peerId joiner_awaiting = JStr ''room:k3x9q2m''"
  "connMap joiner_awaiting = [(JStr ''room'', 0)]"
  "next_conn joiner_awaiting = 1"
  "theirPub (conns joiner_awaiting 0) = Some (PublicKey [67])"
  "onMessageCallback joiner_awaiting"
  "on_data (conns joiner_awaiting 0)"
  "ui_messages joiner_awaiting = []"
  "console joiner_awaiting = []"
  "unhandled joiner_awaiting = []"
  "ticks joiner_awaiting = 0"
  by (simp_all add: joiner_awaiting_def joiner_opts_def publicKey_c_def model_defs)

lemma creator_ready_eval:
  "isCreator creator_ready" "connMap creator_ready = []" "next_conn creator_ready = 0"
  by (simp_all add: creator_ready_def creator_opts_def model_defs)

lemma toy_history_eval:
  "JSON_stringify toy history = ''[{text:<hi>,},]''"
  "encryptAESGCM toy 0 key_k ''[{text:<hi>,},]'' = stored_blob"
  "JSON_stringify toy stored_blob = ''{iv:<AAAAAAAAAAAA>,ciphertext:<kAAAAAAAAAAAA[{text:<hi>,},]>,}''"
  "JSON_parse toy (JStr ''[{text:<hi>,},]'') = Some history"
  "JSON_parse toy (JStr ''{iv:<AAAAAAAAAAAA>,ciphertext:<kAAAAAAAAAAAA[{text:<hi>,},]>,}'') = Some stored_blob"
  "stored (storage_key ''room'') = Some ''{iv:<AAAAAAAAAAAA>,ciphertext:<kAAAAAAAAAAAA[{text:<hi>,},]>,}''"
  "stored (storage_key ''other'') = None"
  by (simp_all add: history_def stored_blob_def key_k_def stored_def save_def storage_key_def
        encryptAESGCM_def ab2b64_def toy_defs char_of_def bit_0 replicate_12)

section \<open>The claims\<close>

text \<open>
  C1 (on an announce from a peer the creator sends it the roomKey record and then the
  peerList record, on the open event of the connection to it) fails on the code in the
  ordinary join: the joiner \<open>room:b\<close> announces itself over its connection to the
  creator, which is open and registered under \<open>room:b\<close>. The announce case finds this
  connection in the registry and adds to it a handler of the open event that would send
  the two records; the open event of the connection has occurred, so the handler is never
  called, and the joiner has been sent the publicKey record only. An announce of an
  identity that is not registered does what the claim says: the connection opened to it
  sends, when it opens, the publicKey record, the roomKey record with the room key
  encrypted under the derived key, and the peerList record.
\<close>

theorem announce_on_open_connection_delivers_nothing:
  "isCreator creator_two \<and> roomKey creator_two = Some (AesKey [108] True) \<and>
   map_of (connMap creator_two) (JStr ''room:b'') = Some 1 \<and>
   conn_open (conns creator_two 1) \<and>
   sent (conns creator_two 1) = [''{type:<publicKey>,from:<room>,payload:<C>,username:<al>,}''] \<and>
   unhandled creator_after_announce_b = [] \<and>
   on_open (conns creator_after_announce_b 1) =
     [IncomingOpen,
      DeliverRoomKey (JObj [(''iv'', JStr ''CCCCCCCCCCCC''), (''ciphertext'', JStr ''3CCCCCCCCCCCCl'')])] \<and>
   sent (conns creator_after_announce_b 1) =
     [''{type:<publicKey>,from:<room>,payload:<C>,username:<al>,}''] \<and>
   emit_open toy creator_after_announce_b 1 = creator_after_announce_b \<and>
   map_of (connMap creator_two) (JStr ''room:c'') = None \<and>
   unhandled creator_after_announce_c = [] \<and>
   map_of (connMap creator_after_announce_c) (JStr ''room:c'') = Some 2 \<and>
   sent (conns (emit_open toy creator_after_announce_c 2) 2) =
     [''{type:<publicKey>,from:<room>,payload:<C>,username:<al>,}'',
      ''{type:<roomKey>,from:<room>,payload:{iv:<CCCCCCCCCCCC>,ciphertext:<3CCCCCCCCCCCCl>,},}'',
      ''{type:<peerList>,from:<room>,payload:[<room:a>,<room:b>,<room:c>,<room>,],}'']"
proof -
  have b: "unhandled creator_after_announce_b = []"
    "on_open (conns creator_after_announce_b 1) =
       [IncomingOpen,
        DeliverRoomKey (JObj [(''iv'', JStr ''CCCCCCCCCCCC''), (''ciphertext'', JStr ''3CCCCCCCCCCCCl'')])]"
    "sent (conns creator_after_announce_b 1) =
       [''{type:<publicKey>,from:<room>,payload:<C>,username:<al>,}'']"
    "conn_open (conns creator_after_announce_b 1)"
    by (simp_all add: creator_after_announce_b_def creator_two_def creator_ready_def creator_opts_def
          announce_b_def model_defs char_of_def bit_0 replicate_12)
  have c: "unhandled creator_after_announce_c = []"
    "map_of (connMap creator_after_announce_c) (JStr ''room:c'') = Some 2"
    "sent (conns (emit_open toy creator_after_announce_c 2) 2) =
     [''{type:<publicKey>,from:<room>,payload:<C>,username:<al>,}'',
      ''{type:<roomKey>,from:<room>,payload:{iv:<CCCCCCCCCCCC>,ciphertext:<3CCCCCCCCCCCCl>,},}'',
      ''{type:<peerList>,from:<room>,payload:[<room:a>,<room:b>,<room:c>,<room>,],}'']"
    by (simp_all add: creator_after_announce_c_def creator_two_def creator_ready_def creator_opts_def
          announce_c_def model_defs char_of_def bit_0 replicate_12)
  have e: "emit_open toy creator_after_announce_b 1 = creator_after_announce_b"
    using b(4) by (simp add: emit_open_def)
  from b c e show ?thesis by (simp add: creator_two_eval del: One_nat_def)
qed

text \<open>
  C2. A chat envelope that arrives while there is no room key is dropped: the handler
  resolves, nothing changes but the console, which gets one diagnostic; so the observer
  is not called and no rejection is recorded. When afterwards a roomKey record
  establishes the key, a chat envelope that decrypts under this key is decrypted and
  handed to the observer, with its sender and its timestamp (or the local time).
\<close>

theorem early_chat_is_dropped:
  assumes nokey: "roomKey st = None"
    and env: "get_prop msg ''type'' = Some (JStr ''msg'')"
  defines "st1 \<equiv> st\<lparr>console := console st @ [NoRoomKeyYet]\<rparr>"
  shows "handleProtocolMessage P st c msg = (Resolved, st1) \<and>
         (on_data (conns st c) \<and> parseSafe P raw = (msg, []) \<and> truthy msg \<longrightarrow> emit_data P st c raw = st1) \<and>
         (get_prop km ''type'' = Some (JStr ''roomKey'') \<and> roomKey_try P st1 ck km = Inr key \<and>
          get_prop msg' ''type'' = Some (JStr ''msg'') \<and>
          get_prop (field msg' ''payload'') ''iv'' = Some iv \<and>
          get_prop (field msg' ''payload'') ''ciphertext'' = Some ct \<and>
          decryptAESGCM P key iv ct = Inr plaintext \<and>
          JSON_parse P (JStr plaintext) = Some obj \<and>
          onMessageCallback st \<longrightarrow>
            (case handleProtocolMessage P st1 ck km of (r, st2) \<Rightarrow>
               r = Resolved \<and> roomKey st2 = Some key \<and>
               (case handleProtocolMessage P st2 c' msg' of (r', st3) \<Rightarrow>
                  r' = Resolved \<and>
                  ui_messages st3 = ui_messages st @
                    [JObj [(''from'', field msg' ''from''),
                           (''ts'', if truthy (field msg' ''ts'') then field msg' ''ts''
                                    else JNum (Date_now P (ticks st))),
                           (''payload'', obj)]])))"
proof (intro conjI impI)
  show h: "handleProtocolMessage P st c msg = (Resolved, st1)"
    using nokey env by (simp add: handleProtocolMessage_def case_msg_def st1_def)
  show "emit_data P st c raw = st1"
    if "on_data (conns st c) \<and> parseSafe P raw = (msg, []) \<and> truthy msg"
    using that h by (simp add: emit_data_def)
next
  assume a: "get_prop km ''type'' = Some (JStr ''roomKey'') \<and> roomKey_try P st1 ck km = Inr key \<and>
          get_prop msg' ''type'' = Some (JStr ''msg'') \<and>
          get_prop (field msg' ''payload'') ''iv'' = Some iv \<and>
          get_prop (field msg' ''payload'') ''ciphertext'' = Some ct \<and>
          decryptAESGCM P key iv ct = Inr plaintext \<and>
          JSON_parse P (JStr plaintext) = Some obj \<and>
          onMessageCallback st"
  have k: "handleProtocolMessage P st1 ck km = (Resolved, st1\<lparr>roomKey := Some key\<rparr>)"
    using a by (simp add: handleProtocolMessage_def case_roomKey_def)
  have m: "msg_try P (st1\<lparr>roomKey := Some key\<rparr>) key msg' =
        Inr (if truthy (field msg' ''ts'')
             then st1\<lparr>roomKey := Some key, ui_messages := ui_messages st @
                    [JObj [(''from'', field msg' ''from''), (''ts'', field msg' ''ts''), (''payload'', obj)]]\<rparr>
             else st1\<lparr>roomKey := Some key, ticks := Suc (ticks st), ui_messages := ui_messages st @
                    [JObj [(''from'', field msg' ''from''), (''ts'', JNum (Date_now P (ticks st))), (''payload'', obj)]]\<rparr>)"
    using a by (simp add: msg_try_def st1_def)
  show "case handleProtocolMessage P st1 ck km of (r, st2) \<Rightarrow>
               r = Resolved \<and> roomKey st2 = Some key \<and>
               (case handleProtocolMessage P st2 c' msg' of (r', st3) \<Rightarrow>
                  r' = Resolved \<and>
                  ui_messages st3 = ui_messages st @
                    [JObj [(''from'', field msg' ''from''),
                           (''ts'', if truthy (field msg' ''ts'') then field msg' ''ts''
                                    else JNum (Date_now P (ticks st))),
                           (''payload'', obj)]])"
  proof (cases "truthy (field msg' ''ts'')")
    case True
    with a m have "handleProtocolMessage P (st1\<lparr>roomKey := Some key\<rparr>) c' msg' =
       (Resolved, st1\<lparr>roomKey := Some key, ui_messages := ui_messages st @
                    [JObj [(''from'', field msg' ''from''), (''ts'', field msg' ''ts''), (''payload'', obj)]]\<rparr>)"
      by (simp add: handleProtocolMessage_def case_msg_def)
    with True show ?thesis by (simp add: k)
  next
    case False
    with a m have "handleProtocolMessage P (st1\<lparr>roomKey := Some key\<rparr>) c' msg' =
       (Resolved, st1\<lparr>roomKey := Some key, ticks := Suc (ticks st), ui_messages := ui_messages st @
                    [JObj [(''from'', field msg' ''from''), (''ts'', JNum (Date_now P (ticks st))), (''payload'', obj)]]\<rparr>)"
      by (simp add: handleProtocolMessage_def case_msg_def)
    with False show ?thesis by (simp add: k)
  qed
qed

theorem early_chat_is_dropped_witness:
  "roomKey joiner_awaiting = None \<and>
   get_prop chat_early ''type'' = Some (JStr ''msg'') \<and>
   on_data (conns joiner_awaiting 0) \<and> parseSafe toy chat_early = (chat_early, []) \<and> truthy chat_early \<and>
   get_prop roomKey_delivery ''type'' = Some (JStr ''roomKey'') \<and>
   roomKey_try toy (joiner_awaiting\<lparr>console := console joiner_awaiting @ [NoRoomKeyYet]\<rparr>) 0 roomKey_delivery
     = Inr (AesKey [108] False) \<and>
   get_prop chat_late ''type'' = Some (JStr ''msg'') \<and>
   get_prop (field chat_late ''payload'') ''iv'' = Some (JStr ''BBBBBBBBBBBB'') \<and>
   get_prop (field chat_late ''payload'') ''ciphertext'' = Some (JStr ''lBBBBBBBBBBBB{text:<hi>,}'') \<and>
   decryptAESGCM toy (AesKey [108] False) (JStr ''BBBBBBBBBBBB'') (JStr ''lBBBBBBBBBBBB{text:<hi>,}'')
     = Inr ''{text:<hi>,}'' \<and>
   JSON_parse toy (JStr ''{text:<hi>,}'') = Some (JObj [(''text'', JStr ''hi'')]) \<and>
   onMessageCallback joiner_awaiting \<and>
   emit_data toy joiner_awaiting 0 chat_early = joiner_awaiting\<lparr>console := [NoRoomKeyYet]\<rparr> \<and>
   ui_messages (emit_data toy joiner_awaiting 0 chat_early) = [] \<and>
   unhandled (emit_data toy joiner_awaiting 0 chat_early) = [] \<and>
   ui_messages
     (snd (handleProtocolMessage toy
        (snd (handleProtocolMessage toy (emit_data toy joiner_awaiting 0 chat_early) 0 roomKey_delivery))
        0 chat_late)) =
     [JObj [(''from'', JStr ''room''), (''ts'', JNum 7), (''payload'', JObj [(''text'', JStr ''hi'')])]]"
proof -
  let ?st1 = "joiner_awaiting\<lparr>console := console joiner_awaiting @ [NoRoomKeyYet]\<rparr>"
  have h: "get_prop chat_early ''type'' = Some (JStr ''msg'')"
    "parseSafe toy chat_early = (chat_early, [])" "truthy chat_early"
    "get_prop roomKey_delivery ''type'' = Some (JStr ''roomKey'')"
    "get_prop chat_late ''type'' = Some (JStr ''msg'')"
    "get_prop (field chat_late ''payload'') ''iv'' = Some (JStr ''BBBBBBBBBBBB'')"
    "get_prop (field chat_late ''payload'') ''ciphertext'' = Some (JStr ''lBBBBBBBBBBBB{text:<hi>,}'')"
    "decryptAESGCM toy (AesKey [108] False) (JStr ''BBBBBBBBBBBB'') (JStr ''lBBBBBBBBBBBB{text:<hi>,}'')
       = Inr ''{text:<hi>,}''"
    "JSON_parse toy (JStr ''{text:<hi>,}'') = Some (JObj [(''text'', JStr ''hi'')])"
    "field chat_late ''ts'' = JNum 7" "field chat_late ''from'' = JStr ''room''"
    by (simp_all add: chat_early_def chat_late_def roomKey_delivery_def parseSafe_def field_def
          decryptAESGCM_def b642ab_def toy_defs char_of_def bit_0)
  have k: "roomKey_try toy ?st1 0 roomKey_delivery = Inr (AesKey [108] False)"
    by (simp add: joiner_awaiting_eval roomKey_delivery_def roomKey_try_def deriveSharedAESKey_def
          field_def decryptAESGCM_def importAESKeyFromBase64_def b642ab_def toy_defs char_of_def bit_0)
  note t = early_chat_is_dropped [OF joiner_awaiting_eval(1) h(1), of toy 0 chat_early roomKey_delivery 0
              "AesKey [108] False" chat_late "JStr ''BBBBBBBBBBBB''" "JStr ''lBBBBBBBBBBBB{text:<hi>,}''"
              "''{text:<hi>,}''" "JObj [(''text'', JStr ''hi'')]" 0]
  from t have d: "emit_data toy joiner_awaiting 0 chat_early = ?st1"
    using h joiner_awaiting_eval by simp
  from t h k joiner_awaiting_eval
  have "case handleProtocolMessage toy ?st1 0 roomKey_delivery of (r, st2) \<Rightarrow>
          r = Resolved \<and> roomKey st2 = Some (AesKey [108] False) \<and>
          (case handleProtocolMessage toy st2 0 chat_late of (r', st3) \<Rightarrow>
             r' = Resolved \<and>
             ui_messages st3 = [JObj [(''from'', JStr ''room''), (''ts'', JNum 7),
                                      (''payload'', JObj [(''text'', JStr ''hi'')])]])"
    by simp
  then have "ui_messages (snd (handleProtocolMessage toy (snd (handleProtocolMessage toy ?st1 0 roomKey_delivery)) 0 chat_late)) =
     [JObj [(''from'', JStr ''room''), (''ts'', JNum 7), (''payload'', JObj [(''text'', JStr ''hi'')])]]"
    by (simp split: prod.splits)
  with d h k joiner_awaiting_eval show ?thesis by simp
qed

text \<open>
  C3, as amended. A publicKey record whose key the crypto library accepts sets the remote
  public key of the connection it arrived on to the announced key, whatever the key was
  before, and changes the key of no other connection. A message of any other type
  changes the remote public key of no connection that exists when it arrives (an announce
  sets the key only of the connection it newly opens).
\<close>

theorem remote_key_set_by_publicKey_only:
  "(get_prop msg ''type'' = Some (JStr ''publicKey'') \<and>
    importPublicKeyFromBase64 P (field msg ''payload'') = Inr k \<longrightarrow>
      (case handleProtocolMessage P st c msg of (r, st') \<Rightarrow>
         theirPub (conns st' c) = Some k \<and>
         (\<forall>c'. c' \<noteq> c \<longrightarrow> theirPub (conns st' c') = theirPub (conns st c')))) \<and>
   (get_prop msg ''type'' \<noteq> Some (JStr ''publicKey'') \<longrightarrow>
      (case handleProtocolMessage P st c msg of (r, st') \<Rightarrow>
         \<forall>c' < next_conn st. theirPub (conns st' c') = theirPub (conns st c')))"
proof (intro conjI impI)
  assume "get_prop msg ''type'' = Some (JStr ''publicKey'') \<and>
    importPublicKeyFromBase64 P (field msg ''payload'') = Inr k"
  then show "case handleProtocolMessage P st c msg of (r, st') \<Rightarrow>
         theirPub (conns st' c) = Some k \<and>
         (\<forall>c'. c' \<noteq> c \<longrightarrow> theirPub (conns st' c') = theirPub (conns st c'))"
    by (simp add: handleProtocolMessage_def case_publicKey_def upd_conn_def)
next
  assume n: "get_prop msg ''type'' \<noteq> Some (JStr ''publicKey'')"
  obtain r st' where h: "handleProtocolMessage P st c msg = (r, st')"
    by (cases "handleProtocolMessage P st c msg")
  with n have "keeps_keys st st'"
    by (auto simp: handleProtocolMessage_def split: option.splits if_splits
             dest: case_announce_keeps_keys other_cases_keep_keys)
  with h show "case handleProtocolMessage P st c msg of (r, st') \<Rightarrow>
         \<forall>c' < next_conn st. theirPub (conns st' c') = theirPub (conns st c')"
    by (simp add: keeps_keys_def)
qed

theorem remote_key_set_by_publicKey_only_witness:
  "get_prop publicKey_e ''type'' = Some (JStr ''publicKey'') \<and>
   importPublicKeyFromBase64 toy (field publicKey_e ''payload'') = Inr (PublicKey [69]) \<and>
   theirPub (conns (snd (handleProtocolMessage toy joiner_awaiting 0 publicKey_e)) 0) = Some (PublicKey [69]) \<and>
   get_prop chat_early ''type'' \<noteq> Some (JStr ''publicKey'') \<and>
   0 < next_conn joiner_awaiting \<and>
   theirPub (conns (snd (handleProtocolMessage toy joiner_awaiting 0 chat_early)) 0) = Some (PublicKey [67])"
proof -
  have h: "get_prop publicKey_e ''type'' = Some (JStr ''publicKey'')"
    "importPublicKeyFromBase64 toy (field publicKey_e ''payload'') = Inr (PublicKey [69])"
    "get_prop chat_early ''type'' \<noteq> Some (JStr ''publicKey'')"
    by (simp_all add: publicKey_e_def chat_early_def field_def importPublicKeyFromBase64_def
          b642ab_def toy_defs)
  from remote_key_set_by_publicKey_only [where msg = publicKey_e and P = toy and k = "PublicKey [69]" and st = joiner_awaiting and c = 0] h
  have a: "theirPub (conns (snd (handleProtocolMessage toy joiner_awaiting 0 publicKey_e)) 0) = Some (PublicKey [69])"
    by (simp split: prod.splits)
  from remote_key_set_by_publicKey_only [where msg = chat_early and P = toy and k = "PublicKey [69]" and st = joiner_awaiting and c = 0] h
  have "\<forall>c' < next_conn joiner_awaiting.
          theirPub (conns (snd (handleProtocolMessage toy joiner_awaiting 0 chat_early)) c') =
          theirPub (conns joiner_awaiting c')"
    by (simp split: prod.splits)
  then have "theirPub (conns (snd (handleProtocolMessage toy joiner_awaiting 0 chat_early)) 0) = Some (PublicKey [67])"
    by (simp add: joiner_awaiting_eval)
  with a h show ?thesis by (simp add: joiner_awaiting_eval)
qed

theorem remote_key_first_wins_counterexample:
  "joiner_awaiting =
     emit_data toy (emit_open toy (peer_open toy (init toy module_state joiner_opts)) 0) 0 publicKey_c \<and>
   theirPub (conns joiner_awaiting 0) = Some (PublicKey [67]) \<and>
   joiner_rekeyed = emit_data toy joiner_awaiting 0 publicKey_e \<and>
   theirPub (conns joiner_rekeyed 0) = Some (PublicKey [69])"
proof -
  have "theirPub (conns joiner_rekeyed 0) = Some (PublicKey [69])"
    by (simp add: joiner_rekeyed_def joiner_awaiting_eval publicKey_e_def emit_data_def parseSafe_def
          handleProtocolMessage_def case_publicKey_def field_def importPublicKeyFromBase64_def
          b642ab_def upd_conn_def toy_defs)
  then show ?thesis
    by (simp add: joiner_awaiting_eval joiner_rekeyed_def) (simp add: joiner_awaiting_def)
qed

text \<open>
  C4, as amended. On a creator, a connection opened by a remote peer is registered under
  the remote identity when its channel opens. A joiner registers nothing for such a
  connection, neither when it arrives nor when it opens, and ignores the data that
  arrives on it.
\<close>

theorem inbound_registered_by_creator:
  "(isCreator st \<longrightarrow>
      (case peer_connection st remote of (c, st1) \<Rightarrow>
         conn_peer (conns st1 c) = remote \<and>
         connMap st1 = connMap st \<and>
         map_of (connMap (emit_open P st1 c)) remote = Some c)) \<and>
   (\<not> isCreator st \<longrightarrow>
      (case peer_connection st remote of (c, st1) \<Rightarrow>
         connMap st1 = connMap st \<and>
         connMap (emit_open P st1 c) = connMap st \<and>
         emit_data P (emit_open P st1 c) c raw = emit_open P st1 c))"
  by (simp add: peer_connection_def peer_connect_def handleConnection_def emit_open_def
        emit_data_def upd_conn_def new_conn_def run_open_handler_def conn_send_def Let_def
        update_conv')

theorem inbound_registered_by_creator_witness:
  "isCreator creator_ready \<and>
   peer_connection creator_ready (JStr ''room:a'') = (0, snd (peer_connection creator_ready (JStr ''room:a''))) \<and>
   map_of (connMap (emit_open toy (snd (peer_connection creator_ready (JStr ''room:a''))) 0))
     (JStr ''room:a'') = Some 0 \<and>
   \<not> isCreator joiner_awaiting \<and>
   peer_connection joiner_awaiting (JStr ''room:a'') = (1, snd (peer_connection joiner_awaiting (JStr ''room:a''))) \<and>
   connMap (emit_open toy (snd (peer_connection joiner_awaiting (JStr ''room:a''))) 1) = [(JStr ''room'', 0)] \<and>
   emit_data toy (emit_open toy (snd (peer_connection joiner_awaiting (JStr ''room:a''))) 1) 1 chat_early =
     emit_open toy (snd (peer_connection joiner_awaiting (JStr ''room:a''))) 1"
proof -
  have c: "fst (peer_connection creator_ready (JStr ''room:a'')) = 0"
    and j: "fst (peer_connection joiner_awaiting (JStr ''room:a'')) = 1"
    by (simp_all add: peer_connection_def peer_connect_def Let_def creator_ready_eval
          joiner_awaiting_eval)
  from inbound_registered_by_creator [where st = creator_ready and remote = "JStr ''room:a''" and P = toy and raw = chat_early] c
  have a: "map_of (connMap (emit_open toy (snd (peer_connection creator_ready (JStr ''room:a''))) 0))
     (JStr ''room:a'') = Some 0"
    by (simp add: creator_ready_eval split: prod.splits)
  from inbound_registered_by_creator [where st = joiner_awaiting and remote = "JStr ''room:a''" and P = toy and raw = chat_early] j
  have b: "connMap (emit_open toy (snd (peer_connection joiner_awaiting (JStr ''room:a''))) 1) = [(JStr ''room'', 0)]"
    "emit_data toy (emit_open toy (snd (peer_connection joiner_awaiting (JStr ''room:a''))) 1) 1 chat_early =
     emit_open toy (snd (peer_connection joiner_awaiting (JStr ''room:a''))) 1"
    by (simp_all add: joiner_awaiting_eval split: prod.splits del: One_nat_def)
  from a b c j show ?thesis
    by (simp add: creator_ready_eval joiner_awaiting_eval prod_eq_iff del: One_nat_def)
qed

theorem inbound_registered_counterexample:
  "\<not> isCreator joiner_awaiting \<and>
   joiner_after_inbound = emit_open toy (snd (peer_connection joiner_awaiting (JStr ''room:a''))) 1 \<and>
   conn_peer (conns joiner_after_inbound 1) = JStr ''room:a'' \<and>
   conn_open (conns joiner_after_inbound 1) \<and>
   map_of (connMap joiner_after_inbound) (JStr ''room:a'') = None"
  by (simp add: joiner_after_inbound_def joiner_awaiting_eval peer_connection_def peer_connect_def
        emit_open_def upd_conn_def new_conn_def Let_def)

text \<open>
  C5. \<^verbatim>\<open>sendPlain\<close> is rejected with NoRoomKey exactly when there is no room key, and then
  changes nothing. With a room key it resolves; the payload is encrypted under the room
  key with a nonce drawn for this call (the draw counter advances); the envelope is sent
  on every open connection of the registry, once per entry, and on no other connection;
  and the observer, if set, receives the plaintext with the local identity.
\<close>

theorem sendPlain_needs_roomKey:
  "(fst (sendPlain P st obj) = Rejected NoRoomKey \<longleftrightarrow> roomKey st = None) \<and>
   (roomKey st = None \<longrightarrow> sendPlain P st obj = (Rejected NoRoomKey, st)) \<and>
   (\<forall>key. roomKey st = Some key \<longrightarrow>
      (case sendPlain P st obj of (r, st') \<Rightarrow>
         r = Resolved \<and>
         draws st' = Suc (draws st) \<and>
         connMap st' = connMap st \<and> roomKey st' = roomKey st \<and>
         (\<forall>c. sent (conns st' c) =
                sent (conns st c) @
                (if conn_open (conns st c)
                 then replicate (length (filter (\<lambda>(pid, c'). c' = c) (connMap st)))
                        (JSON_stringify P
                           (JObj [(''type'', JStr ''msg''), (''from'', my_peerId st),
                                  (''ts'', JNum (Date_now P (ticks st))),
                                  (''payload'',
                                   JObj [(''iv'', JStr (ab2b64 P (getRandomValues P (draws st) 12))),
                                         (''ciphertext'',
                                          JStr (ab2b64 P
                                            (AES_GCM_encrypt P key (getRandomValues P (draws st) 12)
                                               (TextEncoder_encode P (JSON_stringify P obj)))))])]))
                 else [])) \<and>
         ui_messages st' =
           ui_messages st @
           (if onMessageCallback st
            then [JObj [(''from'', my_peerId st), (''ts'', JNum (Date_now P (Suc (ticks st)))),
                        (''payload'', obj)]]
            else [])))"
proof (intro conjI allI impI)
  show "(fst (sendPlain P st obj) = Rejected NoRoomKey) = (roomKey st = None)"
    by (cases "roomKey st") (simp_all add: sendPlain_def Let_def)
  show "sendPlain P st obj = (Rejected NoRoomKey, st)" if "roomKey st = None"
    using that by (simp add: sendPlain_def)
next
  fix key assume k: "roomKey st = Some key"
  show "case sendPlain P st obj of (r, st') \<Rightarrow>
         r = Resolved \<and>
         draws st' = Suc (draws st) \<and>
         connMap st' = connMap st \<and> roomKey st' = roomKey st \<and>
         (\<forall>c. sent (conns st' c) =
                sent (conns st c) @
                (if conn_open (conns st c)
                 then replicate (length (filter (\<lambda>(pid, c'). c' = c) (connMap st)))
                        (JSON_stringify P
                           (JObj [(''type'', JStr ''msg''), (''from'', my_peerId st),
                                  (''ts'', JNum (Date_now P (ticks st))),
                                  (''payload'',
                                   JObj [(''iv'', JStr (ab2b64 P (getRandomValues P (draws st) 12))),
                                         (''ciphertext'',
                                          JStr (ab2b64 P
                                            (AES_GCM_encrypt P key (getRandomValues P (draws st) 12)
                                               (TextEncoder_encode P (JSON_stringify P obj)))))])]))
                 else [])) \<and>
         ui_messages st' =
           ui_messages st @
           (if onMessageCallback st
            then [JObj [(''from'', my_peerId st), (''ts'', JNum (Date_now P (Suc (ticks st)))),
                        (''payload'', obj)]]
            else [])"
    using k
    by (simp add: sendPlain_def Let_def push_to_all_send_step fold_send_step encryptAESGCM_def)
qed

theorem sendPlain_needs_roomKey_witness:
  "roomKey joiner_awaiting = None \<and>
   sendPlain toy joiner_awaiting hi = (Rejected NoRoomKey, joiner_awaiting) \<and>
   roomKey creator_two = Some (AesKey [108] True) \<and>
   fst (sendPlain toy creator_two hi) = Resolved \<and>
   draws (snd (sendPlain toy creator_two hi)) = 3 \<and>
   sent (conns (snd (sendPlain toy creator_two hi)) 0) =
     [''{type:<publicKey>,from:<room>,payload:<C>,username:<al>,}'',
      ''{type:<msg>,from:<room>,ts:+|||||,payload:{iv:<CCCCCCCCCCCC>,ciphertext:<lCCCCCCCCCCCC{text:<hi>,}>,},}''] \<and>
   sent (conns (snd (sendPlain toy creator_two hi)) 2) = sent (conns creator_two 2) \<and>
   ui_messages (snd (sendPlain toy creator_two hi)) =
     [JObj [(''from'', JStr ''room''), (''ts'', JNum 6), (''payload'', hi)]]"
proof -
  note t = sendPlain_needs_roomKey [where P = toy and obj = hi]
  from t [where st = joiner_awaiting]
  have a: "sendPlain toy joiner_awaiting hi = (Rejected NoRoomKey, joiner_awaiting)"
    by (simp add: joiner_awaiting_eval)
  obtain r st' where e: "sendPlain toy creator_two hi = (r, st')"
    by (cases "sendPlain toy creator_two hi")
  from t [where st = creator_two] e
  have b: "r = Resolved" "draws st' = 3"
    "\<forall>c. sent (conns st' c) =
          sent (conns creator_two c) @
          (if conn_open (conns creator_two c)
           then replicate (length (filter (\<lambda>(pid, c'). c' = c) (connMap creator_two)))
                  (JSON_stringify toy
                     (JObj [(''type'', JStr ''msg''), (''from'', my_peerId creator_two),
                            (''ts'', JNum (Date_now toy (ticks creator_two))),
                            (''payload'',
                             JObj [(''iv'', JStr (ab2b64 toy (getRandomValues toy (draws creator_two) 12))),
                                   (''ciphertext'',
                                    JStr (ab2b64 toy
                                      (AES_GCM_encrypt toy (AesKey [108] True)
                                         (getRandomValues toy (draws creator_two) 12)
                                         (TextEncoder_encode toy (JSON_stringify toy hi)))))])]))
           else [])"
    "ui_messages st' =
       [JObj [(''from'', JStr ''room''), (''ts'', JNum 6), (''payload'', hi)]]"
    by (simp_all add: creator_two_eval toy_def)
  have c: "\<not> conn_open (conns creator_two 2)"
    by (simp add: creator_two_def creator_ready_def creator_opts_def model_defs)
  have rep: "\<And>x :: 8 word. replicate 12 x = [x, x, x, x, x, x, x, x, x, x, x, x]"
    "\<And>x :: char. replicate 5 x = [x, x, x, x, x]"
    by (simp_all add: eval_nat_numeral)
  from b(3) [rule_format, of 0] b(3) [rule_format, of 2] c
  have "sent (conns st' 0) =
     [''{type:<publicKey>,from:<room>,payload:<C>,username:<al>,}'',
      ''{type:<msg>,from:<room>,ts:+|||||,payload:{iv:<CCCCCCCCCCCC>,ciphertext:<lCCCCCCCCCCCC{text:<hi>,}>,},}'']"
    "sent (conns st' 2) = sent (conns creator_two 2)"
    by (simp_all add: creator_two_eval hi_def ab2b64_def toy_defs char_of_def bit_0 rep)
  with a b e show ?thesis
    by (simp add: joiner_awaiting_eval creator_two_eval)
qed

text \<open>
  C6. \<^verbatim>\<open>connectToPeer\<close> for an identity of the registry returns the registered connection
  and changes nothing. An announce from a registered identity leaves the registry and the
  room key as they are and creates no connection; a newPeer record for a registered
  identity changes nothing at all.
\<close>

theorem connect_and_announce_idempotent:
  "(peer st \<and> map_of (connMap st) p = Some c \<longrightarrow> connectToPeer st p = Inr (c, st)) \<and>
   (get_prop msg ''type'' = Some (JStr ''announce'') \<and>
    map_of (connMap st) (field msg ''from'') = Some c \<longrightarrow>
      (case handleProtocolMessage P st c' msg of (r, st') \<Rightarrow>
         connMap st' = connMap st \<and> next_conn st' = next_conn st \<and> roomKey st' = roomKey st)) \<and>
   (get_prop msg ''type'' = Some (JStr ''newPeer'') \<and>
    get_prop (field msg ''payload'') ''peerId'' = Some p \<and>
    map_of (connMap st) p = Some c \<longrightarrow>
      handleProtocolMessage P st c' msg = (Resolved, st))"
proof (intro conjI impI)
  show "connectToPeer st p = Inr (c, st)" if "peer st \<and> map_of (connMap st) p = Some c"
    using that by (simp add: connectToPeer_def)
  show "handleProtocolMessage P st c' msg = (Resolved, st)"
    if "get_prop msg ''type'' = Some (JStr ''newPeer'') \<and>
        get_prop (field msg ''payload'') ''peerId'' = Some p \<and> map_of (connMap st) p = Some c"
    using that by (simp add: handleProtocolMessage_def case_newPeer_def)
  show "case handleProtocolMessage P st c' msg of (r, st') \<Rightarrow>
         connMap st' = connMap st \<and> next_conn st' = next_conn st \<and> roomKey st' = roomKey st"
    if "get_prop msg ''type'' = Some (JStr ''announce'') \<and>
        map_of (connMap st) (field msg ''from'') = Some c"
    using that
    by (simp add: handleProtocolMessage_def case_announce_def Let_def upd_conn_def
             split: option.splits sum.splits prod.splits)
qed

theorem connect_and_announce_idempotent_witness:
  "peer creator_two \<and> map_of (connMap creator_two) (JStr ''room:b'') = Some 1 \<and>
   connectToPeer creator_two (JStr ''room:b'') = Inr (1, creator_two) \<and>
   get_prop announce_b ''type'' = Some (JStr ''announce'') \<and>
   map_of (connMap creator_two) (field announce_b ''from'') = Some 1 \<and>
   connMap (snd (handleProtocolMessage toy creator_two 1 announce_b)) = connMap creator_two \<and>
   next_conn (snd (handleProtocolMessage toy creator_two 1 announce_b)) = next_conn creator_two \<and>
   roomKey (snd (handleProtocolMessage toy creator_two 1 announce_b)) = roomKey creator_two \<and>
   get_prop newPeer_known ''type'' = Some (JStr ''newPeer'') \<and>
   get_prop (field newPeer_known ''payload'') ''peerId'' = Some (JStr ''room'') \<and>
   map_of (connMap joiner_awaiting) (JStr ''room'') = Some 0 \<and>
   handleProtocolMessage toy joiner_awaiting 0 newPeer_known = (Resolved, joiner_awaiting)"
proof -
  have h: "map_of (connMap creator_two) (JStr ''room:b'') = Some 1"
    "get_prop announce_b ''type'' = Some (JStr ''announce'')"
    "field announce_b ''from'' = JStr ''room:b''"
    "get_prop newPeer_known ''type'' = Some (JStr ''newPeer'')"
    "get_prop (field newPeer_known ''payload'') ''peerId'' = Some (JStr ''room'')"
    "map_of (connMap joiner_awaiting) (JStr ''room'') = Some 0"
    by (simp_all add: creator_two_eval joiner_awaiting_eval announce_b_def newPeer_known_def field_def)
  from connect_and_announce_idempotent
         [where st = creator_two and p = "JStr ''room:b''" and c = 1 and msg = announce_b
            and P = toy and c' = 1] h creator_two_eval(2)
  have a: "connectToPeer creator_two (JStr ''room:b'') = Inr (1, creator_two)"
    "connMap (snd (handleProtocolMessage toy creator_two 1 announce_b)) = connMap creator_two"
    "next_conn (snd (handleProtocolMessage toy creator_two 1 announce_b)) = next_conn creator_two"
    "roomKey (snd (handleProtocolMessage toy creator_two 1 announce_b)) = roomKey creator_two"
    by (simp_all split: prod.splits del: One_nat_def)
  from connect_and_announce_idempotent
         [where st = joiner_awaiting and p = "JStr ''room''" and c = 0 and msg = newPeer_known
            and P = toy and c' = 0] h
  have b: "handleProtocolMessage toy joiner_awaiting 0 newPeer_known = (Resolved, joiner_awaiting)"
    by simp
  from a b h creator_two_eval(2) show ?thesis by (simp del: One_nat_def)
qed

text \<open>
  C7 (the registry never holds an entry for the local identity) fails on the code: the
  announce case connects to the sender it is given without
  comparing it with the local identity, as the peerList and newPeer cases do
  (\<open>peerList_skips_own_identity\<close>, \<open>newPeer_skips_own_identity\<close>). After two
  joiners have connected to the creator \<open>room\<close>, an announce that names \<open>room\<close> as its
  sender makes the creator register a connection under its own identity.
\<close>

theorem registry_holds_own_identity:
  "my_peerId creator_two = JStr ''room'' \<and>
   map_of (connMap creator_two) (JStr ''room'') = None \<and>
   my_peerId creator_after_announce_self = JStr ''room'' \<and>
   map_of (connMap creator_after_announce_self) (JStr ''room'') = Some 2"
  by (simp add: creator_after_announce_self_def creator_two_def creator_ready_def creator_opts_def
        announce_self_def model_defs)

text \<open>
  C8. \<^verbatim>\<open>load\<close> returns the empty log when nothing is stored for the room. When base64,
  the cipher, the text encoding and JSON read back what they wrote (for the log \<open>M\<close>,
  the key \<open>K\<close> and the nonce of the draw), \<^verbatim>\<open>load\<close> after \<^verbatim>\<open>save\<close> returns \<open>M\<close>. When the
  stored blob does not authenticate under the key, \<^verbatim>\<open>load\<close> fails with DecryptionFailed;
  and a log that \<^verbatim>\<open>load\<close> returns for a stored blob is always the content of that blob,
  authenticated under the key.
\<close>

theorem history_load_save:
  "(ls (storage_key room) = None \<longrightarrow> load P ls room K = Inr (JArr [])) \<and>
   ((\<forall>s. atob P (JStr (btoa P s)) = Some s) \<and>
    AES_GCM_decrypt P K (getRandomValues P n 12)
      (AES_GCM_encrypt P K (getRandomValues P n 12) (TextEncoder_encode P (JSON_stringify P M))) =
      Some (TextEncoder_encode P (JSON_stringify P M)) \<and>
    TextDecoder_decode P (TextEncoder_encode P (JSON_stringify P M)) = JSON_stringify P M \<and>
    JSON_parse P (JStr (JSON_stringify P M)) = Some M \<and>
    JSON_parse P (JStr (JSON_stringify P (encryptAESGCM P n K (JSON_stringify P M)))) =
      Some (encryptAESGCM P n K (JSON_stringify P M)) \<and>
    JSON_stringify P (encryptAESGCM P n K (JSON_stringify P M)) \<noteq> []
    \<longrightarrow> load P (save P n ls room M K) room K = Inr M) \<and>
   (ls (storage_key room) = Some raw \<and> raw \<noteq> [] \<and>
    JSON_parse P (JStr raw) = Some blob \<and>
    get_prop blob ''iv'' = Some iv64 \<and> get_prop blob ''ciphertext'' = Some ct64 \<and>
    b642ab P iv64 = Some iv \<and> b642ab P ct64 = Some ct \<and>
    AES_GCM_decrypt P K iv ct = None
    \<longrightarrow> load P ls room K = Inl DecryptionFailed) \<and>
   (ls (storage_key room) = Some raw \<and> raw \<noteq> [] \<and> load P ls room K = Inr v
    \<longrightarrow> (\<exists>blob iv64 ct64 iv ct pt.
          JSON_parse P (JStr raw) = Some blob \<and>
          get_prop blob ''iv'' = Some iv64 \<and> get_prop blob ''ciphertext'' = Some ct64 \<and>
          b642ab P iv64 = Some iv \<and> b642ab P ct64 = Some ct \<and>
          AES_GCM_decrypt P K iv ct = Some pt \<and>
          JSON_parse P (JStr (TextDecoder_decode P pt)) = Some v))"
proof (intro conjI impI)
  show "load P ls room K = Inr (JArr [])" if "ls (storage_key room) = None"
    using that by (simp add: load_def)
next
  let ?pt = "JSON_stringify P M"
  let ?enc = "encryptAESGCM P n K ?pt"
  assume a: "(\<forall>s. atob P (JStr (btoa P s)) = Some s) \<and>
    AES_GCM_decrypt P K (getRandomValues P n 12)
      (AES_GCM_encrypt P K (getRandomValues P n 12) (TextEncoder_encode P ?pt)) =
      Some (TextEncoder_encode P ?pt) \<and>
    TextDecoder_decode P (TextEncoder_encode P ?pt) = ?pt \<and>
    JSON_parse P (JStr ?pt) = Some M \<and>
    JSON_parse P (JStr (JSON_stringify P ?enc)) = Some ?enc \<and>
    JSON_stringify P ?enc \<noteq> []"
  then have b64: "\<And>ab. b642ab P (JStr (ab2b64 P ab)) = Some ab"
    by (simp add: b642ab_ab2b64)
  have stored: "save P n ls room M K (storage_key room) = Some (JSON_stringify P ?enc)"
    by (simp add: save_def Let_def)
  have dec: "decryptAESGCM P K (JStr (ab2b64 P (getRandomValues P n 12)))
               (JStr (ab2b64 P (AES_GCM_encrypt P K (getRandomValues P n 12) (TextEncoder_encode P ?pt))))
             = Inr ?pt"
    using a by (simp add: decryptAESGCM_def b64)
  have "load_try P (JSON_stringify P ?enc) K = Inr M"
    using a dec by (simp add: load_try_def) (simp add: encryptAESGCM_def Let_def)
  with a show "load P (save P n ls room M K) room K = Inr M"
    using load_stored [of "save P n ls room M K" room "JSON_stringify P ?enc" P K] stored by simp
next
  assume a: "ls (storage_key room) = Some raw \<and> raw \<noteq> [] \<and>
    JSON_parse P (JStr raw) = Some blob \<and>
    get_prop blob ''iv'' = Some iv64 \<and> get_prop blob ''ciphertext'' = Some ct64 \<and>
    b642ab P iv64 = Some iv \<and> b642ab P ct64 = Some ct \<and>
    AES_GCM_decrypt P K iv ct = None"
  then have "load_try P raw K = Inl BuiltinError"
    by (simp add: load_try_def decryptAESGCM_def)
  with a show "load P ls room K = Inl DecryptionFailed"
    by (simp add: load_stored)
next
  assume a: "ls (storage_key room) = Some raw \<and> raw \<noteq> [] \<and> load P ls room K = Inr v"
  then have "load_try P raw K = Inr v"
    by (auto simp: load_def split: sum.splits)
  then show "\<exists>blob iv64 ct64 iv ct pt.
          JSON_parse P (JStr raw) = Some blob \<and>
          get_prop blob ''iv'' = Some iv64 \<and> get_prop blob ''ciphertext'' = Some ct64 \<and>
          b642ab P iv64 = Some iv \<and> b642ab P ct64 = Some ct \<and>
          AES_GCM_decrypt P K iv ct = Some pt \<and>
          JSON_parse P (JStr (TextDecoder_decode P pt)) = Some v"
    by (auto simp: load_try_def decryptAESGCM_def split: option.splits sum.splits)
qed

theorem history_load_save_witness:
  "stored (storage_key ''other'') = None \<and>
   load toy stored ''other'' key_k = Inr (JArr []) \<and>
   (\<forall>s. atob toy (JStr (btoa toy s)) = Some s) \<and>
   AES_GCM_decrypt toy key_k (getRandomValues toy 0 12)
     (AES_GCM_encrypt toy key_k (getRandomValues toy 0 12)
        (TextEncoder_encode toy (JSON_stringify toy history))) =
     Some (TextEncoder_encode toy (JSON_stringify toy history)) \<and>
   TextDecoder_decode toy (TextEncoder_encode toy (JSON_stringify toy history)) =
     JSON_stringify toy history \<and>
   JSON_parse toy (JStr (JSON_stringify toy history)) = Some history \<and>
   JSON_parse toy (JStr (JSON_stringify toy (encryptAESGCM toy 0 key_k (JSON_stringify toy history)))) =
     Some (encryptAESGCM toy 0 key_k (JSON_stringify toy history)) \<and>
   JSON_stringify toy (encryptAESGCM toy 0 key_k (JSON_stringify toy history)) \<noteq> [] \<and>
   load toy (save toy 0 Map.empty ''room'' history key_k) ''room'' key_k = Inr history \<and>
   stored (storage_key ''room'') =
     Some ''{iv:<AAAAAAAAAAAA>,ciphertext:<kAAAAAAAAAAAA[{text:<hi>,},]>,}'' \<and>
   JSON_parse toy (JStr ''{iv:<AAAAAAAAAAAA>,ciphertext:<kAAAAAAAAAAAA[{text:<hi>,},]>,}'') = Some stored_blob \<and>
   get_prop stored_blob ''iv'' = Some (JStr ''AAAAAAAAAAAA'') \<and>
   get_prop stored_blob ''ciphertext'' = Some (JStr ''kAAAAAAAAAAAA[{text:<hi>,},]'') \<and>
   b642ab toy (JStr ''AAAAAAAAAAAA'') = Some (map of_char ''AAAAAAAAAAAA'') \<and>
   b642ab toy (JStr ''kAAAAAAAAAAAA[{text:<hi>,},]'') = Some (map of_char ''kAAAAAAAAAAAA[{text:<hi>,},]'') \<and>
   AES_GCM_decrypt toy key_l (map of_char ''AAAAAAAAAAAA'') (map of_char ''kAAAAAAAAAAAA[{text:<hi>,},]'') = None \<and>
   load toy stored ''room'' key_l = Inl DecryptionFailed"
proof -
  have c: "\<forall>s. atob toy (JStr (btoa toy s)) = Some s"
    "AES_GCM_decrypt toy key_k (getRandomValues toy 0 12)
       (AES_GCM_encrypt toy key_k (getRandomValues toy 0 12)
          (TextEncoder_encode toy (JSON_stringify toy history))) =
       Some (TextEncoder_encode toy (JSON_stringify toy history))"
    "TextDecoder_decode toy (TextEncoder_encode toy (JSON_stringify toy history)) =
       JSON_stringify toy history"
    by (simp_all add: key_k_def toy_defs o_def char_byte_char)
  have j: "JSON_parse toy (JStr (JSON_stringify toy history)) = Some history"
    "JSON_parse toy (JStr (JSON_stringify toy (encryptAESGCM toy 0 key_k (JSON_stringify toy history)))) =
       Some (encryptAESGCM toy 0 key_k (JSON_stringify toy history))"
    "JSON_stringify toy (encryptAESGCM toy 0 key_k (JSON_stringify toy history)) \<noteq> []"
    by (simp_all add: toy_history_eval)
  have w: "get_prop stored_blob ''iv'' = Some (JStr ''AAAAAAAAAAAA'')"
    "get_prop stored_blob ''ciphertext'' = Some (JStr ''kAAAAAAAAAAAA[{text:<hi>,},]'')"
    "b642ab toy (JStr ''AAAAAAAAAAAA'') = Some (map of_char ''AAAAAAAAAAAA'')"
    "b642ab toy (JStr ''kAAAAAAAAAAAA[{text:<hi>,},]'') = Some (map of_char ''kAAAAAAAAAAAA[{text:<hi>,},]'')"
    "AES_GCM_decrypt toy key_l (map of_char ''AAAAAAAAAAAA'') (map of_char ''kAAAAAAAAAAAA[{text:<hi>,},]'') = None"
    by (simp_all add: stored_blob_def b642ab_def key_l_def toy_defs)
  have "load toy stored ''other'' key_k = Inr (JArr [])"
    using history_load_save [where ls = stored and room = "''other''" and P = toy and K = key_k]
      toy_history_eval by simp
  moreover have "load toy (save toy 0 Map.empty ''room'' history key_k) ''room'' key_k = Inr history"
    using history_load_save [where ls = Map.empty and room = "''room''" and P = toy and K = key_k
        and n = 0 and M = history] c j by blast
  moreover have "load toy stored ''room'' key_l = Inl DecryptionFailed"
    using history_load_save [where ls = stored and room = "''room''" and P = toy and K = key_l
        and raw = "''{iv:<AAAAAAAAAAAA>,ciphertext:<kAAAAAAAAAAAA[{text:<hi>,},]>,}''" and blob = stored_blob
        and ?iv64.0 = "JStr ''AAAAAAAAAAAA''" and ?ct64.0 = "JStr ''kAAAAAAAAAAAA[{text:<hi>,},]''"
        and iv = "map of_char ''AAAAAAAAAAAA''" and ct = "map of_char ''kAAAAAAAAAAAA[{text:<hi>,},]''"]
      toy_history_eval w by simp
  ultimately show ?thesis using c j w toy_history_eval by simp
qed

text \<open>
  C9, as amended. A datum that JSON cannot parse is dropped with a diagnostic:
  \<^verbatim>\<open>parseSafe\<close> prints it and returns \<^verbatim>\<open>null\<close>, and the data handler changes nothing but
  the console. A datum that is or parses to a value with none of the seven types of the
  switch (\<^verbatim>\<open>null\<close>, a number, a string, a boolean, an array, an object with no or another
  type) changes nothing at all, so that no diagnostic is printed and no rejection recorded;
  if the value is truthy, the protocol handler is called on it and resolves with the state
  unchanged.
\<close>

theorem non_record_datum_dropped:
  "(\<not> is_object raw \<and> JSON_parse P raw = None \<longrightarrow>
      parseSafe P raw = (JNull, [ParseSafeFailed]) \<and>
      emit_data P st c raw =
        (if on_data (conns st c) then st\<lparr>console := console st @ [ParseSafeFailed]\<rparr> else st)) \<and>
   (parseSafe P raw = (v, []) \<and>
    (\<forall>t. get_prop v ''type'' = Some t \<longrightarrow>
         t \<notin> set (map JStr [''publicKey'', ''announce'', ''roomKey'', ''peerList'', ''newPeer'',
                                 ''announceRequest'', ''msg''])) \<longrightarrow>
      emit_data P st c raw = st \<and>
      (truthy v \<longrightarrow> handleProtocolMessage P st c v = (Resolved, st)))"
proof (intro conjI impI)
  assume "\<not> is_object raw \<and> JSON_parse P raw = None"
  then show "parseSafe P raw = (JNull, [ParseSafeFailed])"
    and "emit_data P st c raw =
        (if on_data (conns st c) then st\<lparr>console := console st @ [ParseSafeFailed]\<rparr> else st)"
    by (simp_all add: parseSafe_def emit_data_def)
next
  assume a: "parseSafe P raw = (v, []) \<and>
    (\<forall>t. get_prop v ''type'' = Some t \<longrightarrow>
         t \<notin> set (map JStr [''publicKey'', ''announce'', ''roomKey'', ''peerList'', ''newPeer'',
                                 ''announceRequest'', ''msg'']))"
  have h: "handleProtocolMessage P st c v = (Resolved, st)" if "truthy v"
  proof -
    from that have "get_prop v ''type'' \<noteq> None" by (cases v) (auto split: option.splits)
    then obtain t where t: "get_prop v ''type'' = Some t" by blast
    with a show ?thesis by (auto simp: handleProtocolMessage_def)
  qed
  then show "truthy v \<Longrightarrow> handleProtocolMessage P st c v = (Resolved, st)" .
  from a h show "emit_data P st c raw = st"
    by (cases "truthy v") (simp_all add: emit_data_def)
qed

theorem non_record_datum_dropped_witness:
  "\<not> is_object garbage \<and> JSON_parse toy garbage = None \<and>
   parseSafe toy garbage = (JNull, [ParseSafeFailed]) \<and>
   emit_data toy joiner_awaiting 0 garbage = joiner_awaiting\<lparr>console := [ParseSafeFailed]\<rparr> \<and>
   parseSafe toy text_null = (JNull, []) \<and> get_prop JNull ''type'' = None \<and>
   emit_data toy joiner_awaiting 0 text_null = joiner_awaiting \<and>
   parseSafe toy array_datum = (array_datum, []) \<and>
   get_prop array_datum ''type'' = Some JUndefined \<and> truthy array_datum \<and>
   emit_data toy joiner_awaiting 0 array_datum = joiner_awaiting \<and>
   handleProtocolMessage toy joiner_awaiting 0 array_datum = (Resolved, joiner_awaiting)"
proof -
  have h: "\<not> is_object garbage" "JSON_parse toy garbage = None"
    "parseSafe toy text_null = (JNull, [])" "get_prop JNull ''type'' = None"
    "parseSafe toy array_datum = (array_datum, [])"
    "get_prop array_datum ''type'' = Some JUndefined" "truthy array_datum"
    by (simp_all add: garbage_def text_null_def array_datum_def parseSafe_def toy_defs)
  from non_record_datum_dropped [where raw = garbage and P = toy and st = joiner_awaiting and c = 0] h
  have a: "parseSafe toy garbage = (JNull, [ParseSafeFailed])"
    "emit_data toy joiner_awaiting 0 garbage = joiner_awaiting\<lparr>console := [ParseSafeFailed]\<rparr>"
    by (simp_all add: joiner_awaiting_eval)
  from non_record_datum_dropped
         [where raw = text_null and P = toy and st = joiner_awaiting and c = 0 and v = JNull] h
  have b: "emit_data toy joiner_awaiting 0 text_null = joiner_awaiting"
    by simp
  from non_record_datum_dropped
         [where raw = array_datum and P = toy and st = joiner_awaiting and c = 0 and v = array_datum] h
  have c: "emit_data toy joiner_awaiting 0 array_datum = joiner_awaiting"
    "handleProtocolMessage toy joiner_awaiting 0 array_datum = (Resolved, joiner_awaiting)"
    by simp_all
  from a b c h show ?thesis by simp
qed

text \<open>
  The claim as it was: the JSON text of \<^verbatim>\<open>null\<close> and an array are no wire records, and
  both are dropped without a diagnostic.
\<close>

theorem silent_drop_counterexample:
  "on_data (conns joiner_awaiting 0) \<and>
   \<not> is_object text_null \<and> JSON_parse toy text_null = Some JNull \<and>
   console (emit_data toy joiner_awaiting 0 text_null) = console joiner_awaiting \<and>
   is_object array_datum \<and> get_prop array_datum ''type'' = Some JUndefined \<and>
   console (emit_data toy joiner_awaiting 0 array_datum) = console joiner_awaiting"
  by (simp add: joiner_awaiting_eval text_null_def array_datum_def emit_data_def parseSafe_def
        handleProtocolMessage_def toy_defs)

text \<open>
  C10. A message whose type is none of the seven that the switch knows changes nothing:
  the handler resolves with the state it was given, and so does the data handler for a
  datum that is or parses to such a message.
\<close>

theorem unknown_type_ignored:
  assumes "get_prop msg ''type'' = Some t"
    and "t \<notin> set (map JStr [''publicKey'', ''announce'', ''roomKey'', ''peerList'', ''newPeer'',
                                ''announceRequest'', ''msg''])"
  shows "handleProtocolMessage P st c msg = (Resolved, st) \<and>
         (parseSafe P raw = (msg, []) \<longrightarrow> emit_data P st c raw = st)"
  using assms by (auto simp: handleProtocolMessage_def emit_data_def)

theorem unknown_type_ignored_witness:
  "get_prop ping ''type'' = Some (JStr ''ping'') \<and>
   JStr ''ping'' \<notin> set (map JStr [''publicKey'', ''announce'', ''roomKey'', ''peerList'', ''newPeer'',
                                    ''announceRequest'', ''msg'']) \<and>
   parseSafe toy ping = (ping, []) \<and>
   handleProtocolMessage toy joiner_awaiting 0 ping = (Resolved, joiner_awaiting) \<and>
   emit_data toy joiner_awaiting 0 ping = joiner_awaiting"
proof -
  have h: "get_prop ping ''type'' = Some (JStr ''ping'')"
    "JStr ''ping'' \<notin> set (map JStr [''publicKey'', ''announce'', ''roomKey'', ''peerList'', ''newPeer'',
                                    ''announceRequest'', ''msg''])"
    "parseSafe toy ping = (ping, [])"
    by (simp_all add: ping_def parseSafe_def)
  from unknown_type_ignored [OF h(1,2), of toy joiner_awaiting 0 ping] h show ?thesis
    by simp
qed

end
